theory Spec2Isabelle
  imports Complex_Main "HOL-Library.Char_ord" "HOL-Library.List_Lexorder"
    "HOL-Library.Product_Lexorder" "HOL-Library.Log_Nat"
begin

section \<open>Response envelope and errors\<close>

text \<open>
  Identifiers are the persistence layer's opaque reference ids, kept as strings.
  Timestamps (\<open>Date\<close>) are milliseconds since the epoch. Counts, page numbers and
  page sizes are integers; the numbers that may be fractional (scores, points,
  durations) are doubles, with the arithmetic of the section on JavaScript numbers.

  \<open>ApiResponse(statusCode, data, message)\<close> is a record, its message \<open>None\<close> where the
  call passes none; \<open>ApiError(statusCode, message, errors)\<close> and the other thrown classes
  are constructors of \<open>error\<close>. The French messages are written without their accents. A service
  operation returns \<open>Inl\<close> for a throw and \<open>Inr\<close> for a normal return. Persistence calls
  are taken to succeed as calls (connectivity failures are not modelled); logging and
  \<open>populate\<close> (which only adds display fields of referenced documents) are left out.
\<close>

type_synonym oid = string

datatype error =
    ApiError int string "string list"
  | ConflictError string
  | NotFoundError string
  | BadRequestError string
  | TypeError
  | SyntaxError
  | MongoError

record 'a ApiResponse =
  statusCode :: int
  data :: 'a
  message :: "string option"

section \<open>JavaScript numbers\<close>

text \<open>
  A Number is an IEEE 754 double: a finite value, kept as the rational it denotes, one
  of the two infinities, or NaN. The sign of zero is not kept; no operation used here
  tells the two zeros apart in its result.

  \<open>ilog2 x\<close> is the exponent of the power of two at or below a positive \<open>x\<close>.
  \<open>round_even\<close> rounds to the nearest integer, a half to the even neighbour.
  \<open>to_double x\<close> is the double nearest to the rational \<open>x\<close>, as every arithmetic
  operation and every decimal literal produces it: 53 significant bits, the exponent
  not below that of the subnormal numbers, and an infinity when the rounded magnitude
  reaches \<open>2^1024\<close>, that is, when its exponent reaches 1024.
\<close>

datatype double = Finite rat | PosInf | NegInf | NotANumber

definition ilog2 :: "rat \<Rightarrow> int" where
  "ilog2 x =
     (let k = bitlen (fst (quotient_of x)) - bitlen (snd (quotient_of x))
      in if 2 powi k \<le> x then k else k - 1)"

definition round_even :: "rat \<Rightarrow> int" where
  "round_even m =
     (let f = \<lfloor>m\<rfloor>; r = m - of_int f
      in if r < 1 / 2 then f
         else if 1 / 2 < r then f + 1
         else if even f then f else f + 1)"

definition to_double :: "rat \<Rightarrow> double" where
  "to_double x =
     (if x = 0 then Finite 0
      else
        let e = max (ilog2 \<bar>x\<bar>) (- 1022);
            q = 2 powi (e - 52);
            y = of_int (round_even (\<bar>x\<bar> / q)) * q
        in if 1024 \<le> ilog2 y then (if 0 < x then PosInf else NegInf)
           else Finite (sgn x * y))"

text \<open>The operators \<open>+\<close>, \<open>*\<close>, \<open>/\<close>, \<open><\<close> and \<open><=\<close> on Numbers.\<close>

fun dadd :: "double \<Rightarrow> double \<Rightarrow> double" where
  "dadd (Finite a) (Finite b) = to_double (a + b)"
| "dadd NotANumber y = NotANumber"
| "dadd x NotANumber = NotANumber"
| "dadd PosInf NegInf = NotANumber"
| "dadd NegInf PosInf = NotANumber"
| "dadd PosInf y = PosInf"
| "dadd x PosInf = PosInf"
| "dadd NegInf y = NegInf"
| "dadd x NegInf = NegInf"

fun dmul :: "double \<Rightarrow> double \<Rightarrow> double" where
  "dmul (Finite a) (Finite b) = to_double (a * b)"
| "dmul NotANumber y = NotANumber"
| "dmul x NotANumber = NotANumber"
| "dmul (Finite a) PosInf = (if a = 0 then NotANumber else if 0 < a then PosInf else NegInf)"
| "dmul (Finite a) NegInf = (if a = 0 then NotANumber else if 0 < a then NegInf else PosInf)"
| "dmul PosInf (Finite b) = (if b = 0 then NotANumber else if 0 < b then PosInf else NegInf)"
| "dmul NegInf (Finite b) = (if b = 0 then NotANumber else if 0 < b then NegInf else PosInf)"
| "dmul PosInf PosInf = PosInf"
| "dmul NegInf NegInf = PosInf"
| "dmul PosInf NegInf = NegInf"
| "dmul NegInf PosInf = NegInf"

fun ddiv :: "double \<Rightarrow> double \<Rightarrow> double" where
  "ddiv (Finite a) (Finite b) =
     (if b = 0 then (if a = 0 then NotANumber else if 0 < a then PosInf else NegInf)
      else to_double (a / b))"
| "ddiv NotANumber y = NotANumber"
| "ddiv x NotANumber = NotANumber"
| "ddiv (Finite a) y = Finite 0"
| "ddiv PosInf (Finite b) = (if 0 \<le> b then PosInf else NegInf)"
| "ddiv NegInf (Finite b) = (if 0 \<le> b then NegInf else PosInf)"
| "ddiv x y = NotANumber"

fun dless :: "double \<Rightarrow> double \<Rightarrow> bool" where
  "dless (Finite a) (Finite b) = (a < b)"
| "dless NotANumber y = False"
| "dless x NotANumber = False"
| "dless x NegInf = False"
| "dless PosInf y = False"
| "dless x y = True"

fun dle :: "double \<Rightarrow> double \<Rightarrow> bool" where
  "dle (Finite a) (Finite b) = (a \<le> b)"
| "dle NotANumber y = False"
| "dle x NotANumber = False"
| "dle NegInf y = True"
| "dle x PosInf = True"
| "dle x y = False"

text \<open>
  \<open>Math.round\<close> gives the nearest integer, a half upwards, and leaves an infinity and
  NaN as they are. The result is exact: the nearest integer of a double is a double.
\<close>

fun Math_round :: "double \<Rightarrow> double" where
  "Math_round (Finite x) = Finite (of_int \<lfloor>x + 1 / 2\<rfloor>)"
| "Math_round x = x"

text \<open>The place of a Number in the database's sort order: NaN first, then by value.\<close>

definition double_key :: "double \<Rightarrow> int \<times> rat" where
  "double_key d =
     (case d of NotANumber \<Rightarrow> (- 2, 0) | NegInf \<Rightarrow> (- 1, 0) | Finite x \<Rightarrow> (0, x)
      | PosInf \<Rightarrow> (1, 0))"

section \<open>Quiz and QuizResult documents\<close>

record retake_policy =
  maxAttempts :: int
  cooldown :: int

record analytics =
  totalAttempts :: int
  averageScore :: double
  averageTime :: double
  completionRate :: double

record quiz =
  quiz_id :: oid
  title :: string
  description :: string
  tags :: "string list"
  subjectId :: oid
  level :: string
  difficulty :: string
  premiumOnly :: bool
  questionIds :: "oid list"
  totalQuestions :: int
  totalPoints :: double
  retakePolicy :: retake_policy
  quiz_analytics :: analytics
  isActive :: bool
  createdAt :: int
  updatedAt :: int

record quiz_result =
  result_id :: oid
  quizId :: oid
  userId :: oid
  score :: double
  timeTaken :: double
  result_createdAt :: int

text \<open>The two collections the quiz service reads and writes.\<close>

record store =
  quizzes :: "quiz list"
  quizResults :: "quiz_result list"

text \<open>
  An update document for a quiz: each field is either absent (\<open>None\<close>) or carries the
  new value. \<open>findByIdAndUpdate\<close> sets exactly the fields that are present.
\<close>

record quiz_update =
  u_title :: "string option"
  u_questionIds :: "oid list option"
  u_totalQuestions :: "int option"
  u_totalPoints :: "double option"
  u_isActive :: "bool option"
  u_analytics :: "analytics option"
  u_updatedAt :: "int option"

definition no_update :: quiz_update where
  "no_update = \<lparr>u_title = None, u_questionIds = None, u_totalQuestions = None,
     u_totalPoints = None, u_isActive = None, u_analytics = None, u_updatedAt = None\<rparr>"

subsection \<open>Collection operations on quizzes\<close>

fun findById :: "quiz list \<Rightarrow> oid \<Rightarrow> quiz option" where
  "findById [] i = None"
| "findById (q # qs) i = (if quiz_id q = i then Some q else findById qs i)"

definition apply_update :: "quiz_update \<Rightarrow> quiz \<Rightarrow> quiz" where
  "apply_update u q =
     q\<lparr>title := (case u_title u of None \<Rightarrow> title q | Some v \<Rightarrow> v),
       questionIds := (case u_questionIds u of None \<Rightarrow> questionIds q | Some v \<Rightarrow> v),
       totalQuestions := (case u_totalQuestions u of None \<Rightarrow> totalQuestions q | Some v \<Rightarrow> v),
       totalPoints := (case u_totalPoints u of None \<Rightarrow> totalPoints q | Some v \<Rightarrow> v),
       isActive := (case u_isActive u of None \<Rightarrow> isActive q | Some v \<Rightarrow> v),
       quiz_analytics := (case u_analytics u of None \<Rightarrow> quiz_analytics q | Some v \<Rightarrow> v),
       updatedAt := (case u_updatedAt u of None \<Rightarrow> updatedAt q | Some v \<Rightarrow> v)\<rparr>"

text \<open>
  \<open>Quiz.findByIdAndUpdate(id, update, {new: true})\<close>: the collection after the update
  and the updated document, or \<open>None\<close> (JavaScript \<open>null\<close>) when no document has the id.
\<close>

fun findByIdAndUpdate :: "quiz list \<Rightarrow> oid \<Rightarrow> quiz_update \<Rightarrow> (quiz list \<times> quiz) option" where
  "findByIdAndUpdate [] i u = None"
| "findByIdAndUpdate (q # qs) i u =
     (if quiz_id q = i then Some (apply_update u q # qs, apply_update u q)
      else (case findByIdAndUpdate qs i u of
              None \<Rightarrow> None
            | Some (qs', q') \<Rightarrow> Some (q # qs', q')))"

text \<open>\<open>quiz.save()\<close> of a loaded document: the stored document with its id is replaced.\<close>

fun save :: "quiz list \<Rightarrow> quiz \<Rightarrow> quiz list" where
  "save [] d = [d]"
| "save (q # qs) d = (if quiz_id q = quiz_id d then d # qs else q # save qs d)"

fun findByIdAndDelete :: "quiz list \<Rightarrow> oid \<Rightarrow> quiz list" where
  "findByIdAndDelete [] i = []"
| "findByIdAndDelete (q # qs) i = (if quiz_id q = i then qs else q # findByIdAndDelete qs i)"

text \<open>\<open>QuizResult.find({quizId})\<close> and \<open>QuizResult.exists({quizId})\<close>.\<close>

definition find_results :: "quiz_result list \<Rightarrow> oid \<Rightarrow> quiz_result list" where
  "find_results rs i = filter (\<lambda>r. quizId r = i) rs"

definition exists_result :: "quiz_result list \<Rightarrow> oid \<Rightarrow> bool" where
  "exists_result rs i = (find_results rs i \<noteq> [])"

section \<open>QuizService\<close>

subsection \<open>getQuizById\<close>

definition getQuizById :: "store \<Rightarrow> oid \<Rightarrow> bool \<Rightarrow> error + quiz ApiResponse" where
  "getQuizById st quizId' includeQuestions =
     (case findById (quizzes st) quizId' of
        None \<Rightarrow> Inl (ApiError 404 ''Quiz not found'' [])
      | Some q \<Rightarrow>
          Inr \<lparr>statusCode = 200, data = q, message = Some ''Quiz retrieved successfully''\<rparr>)"

subsection \<open>updateQuiz\<close>

text \<open>
  The guard \<open>updateData.questionIds && updateData.totalQuestions\<close>: an array, even an
  empty one, is truthy; a number is truthy unless it is zero; an absent field is not.
\<close>

definition recount :: "quiz_update \<Rightarrow> quiz_update" where
  "recount updateData =
     (case (u_questionIds updateData, u_totalQuestions updateData) of
        (Some ids, Some n) \<Rightarrow>
          (if n \<noteq> 0 then
             (if int (length ids) \<noteq> n
              then updateData\<lparr>u_totalQuestions := Some (int (length ids))\<rparr>
              else updateData)
           else updateData)
      | _ \<Rightarrow> updateData)"

text \<open>
  The quiz schema's validators (\<open>runValidators: true\<close>) belong to the Quiz model, which
  is a parameter here: \<open>validators\<close> gives the messages of the violated rules, none when
  the update is valid. \<open>now\<close> is the value of \<open>new Date()\<close>.
\<close>

definition updateQuiz ::
  "(quiz_update \<Rightarrow> string list) \<Rightarrow> int \<Rightarrow> store \<Rightarrow> oid \<Rightarrow> quiz_update
     \<Rightarrow> store \<times> (error + quiz ApiResponse)" where
  "updateQuiz validators now st quizId' updateData =
     (let updateData' = (recount updateData)\<lparr>u_updatedAt := Some now\<rparr> in
      if validators updateData' \<noteq> []
      then (st, Inl (ApiError 400 ''Validation failed'' (validators updateData')))
      else (case findByIdAndUpdate (quizzes st) quizId' updateData' of
              None \<Rightarrow> (st, Inl (ApiError 404 ''Quiz not found'' []))
            | Some (qs', q') \<Rightarrow>
                (st\<lparr>quizzes := qs'\<rparr>,
                 Inr \<lparr>statusCode = 200, data = q', message = Some ''Quiz updated successfully''\<rparr>)))"

subsection \<open>deleteQuiz\<close>

definition deleteQuiz :: "store \<Rightarrow> oid \<Rightarrow> store \<times> (error + unit option ApiResponse)" where
  "deleteQuiz st quizId' =
     (case findById (quizzes st) quizId' of
        None \<Rightarrow> (st, Inl (ApiError 404 ''Quiz not found'' []))
      | Some q \<Rightarrow>
          if exists_result (quizResults st) quizId'
          then (st\<lparr>quizzes := save (quizzes st) (q\<lparr>isActive := False\<rparr>)\<rparr>,
                Inr \<lparr>statusCode = 200, data = None,
                     message = Some ''Quiz deactivated successfully (has existing results)''\<rparr>)
          else (st\<lparr>quizzes := findByIdAndDelete (quizzes st) quizId'\<rparr>,
                Inr \<lparr>statusCode = 200, data = None, message = Some ''Quiz deleted successfully''\<rparr>))"

subsection \<open>getAllQuizzes\<close>

text \<open>
  A JavaScript value used as a condition: an absent or empty string is falsy.
\<close>

definition truthy :: "string option \<Rightarrow> bool" where
  "truthy v = (case v of None \<Rightarrow> False | Some s \<Rightarrow> s \<noteq> [])"

text \<open>
  The value of \<open>Math.ceil(total / limit)\<close> for integers \<open>total\<close> and \<open>limit\<close>: division by
  zero gives \<open>Infinity\<close>, or \<open>NaN\<close> for \<open>0 / 0\<close> (a document count is never negative).
  The ceiling is that of the exact quotient, which the double quotient shares as long
  as the count and the page size are far below \<open>2^53\<close>.
  \<open>js_less page n\<close> is \<open>page < n\<close>: every number is below \<open>Infinity\<close>, none below \<open>NaN\<close>.
\<close>

datatype js_number = Num int | Infinity | NaN

definition Math_ceil_quotient :: "int \<Rightarrow> int \<Rightarrow> js_number" where
  "Math_ceil_quotient total' limit' =
     (if limit' = 0 then (if total' = 0 then NaN else Infinity)
      else Num \<lceil>(of_int total' :: rat) / of_int limit'\<rceil>)"

fun js_less :: "int \<Rightarrow> js_number \<Rightarrow> bool" where
  "js_less p (Num n) = (p < n)"
| "js_less p Infinity = True"
| "js_less p NaN = False"

text \<open>
  The cursor operations of the database driver. \<open>sort\<close> orders by one key, ascending
  for direction \<open>1\<close> and descending otherwise, and keeps documents with equal keys in
  their stored order. \<open>limit(0)\<close> sets no limit, and a negative limit counts as its
  absolute value. A negative \<open>skip\<close> is rejected by the database; the callers test for
  it before they call \<open>skip_docs\<close>.
\<close>

definition sort_docs :: "('d \<Rightarrow> 'k::linorder) \<Rightarrow> int \<Rightarrow> 'd list \<Rightarrow> 'd list" where
  "sort_docs key dir ds = (if dir = 1 then sort_key key ds else rev (sort_key key (rev ds)))"

definition skip_docs :: "int \<Rightarrow> 'd list \<Rightarrow> 'd list" where
  "skip_docs n ds = drop (nat n) ds"

definition limit_docs :: "int \<Rightarrow> 'd list \<Rightarrow> 'd list" where
  "limit_docs n ds = (if n = 0 then ds else take (nat \<bar>n\<bar>) ds)"

text \<open>
  The query object of \<open>getAllQuizzes\<close>: a key that is absent puts no condition on the
  documents. The \<open>$or\<close> clause holds the compiled search pattern, tested against the
  title, the description and each tag.
\<close>

record quiz_query =
  f_isActive :: "bool option"
  f_subjectId :: "oid option"
  f_level :: "string option"
  f_difficulty :: "string option"
  f_premiumOnly :: "bool option"
  f_or :: "(string \<Rightarrow> bool) option"

record quiz_options =
  o_page :: "int option"
  o_limit :: "int option"
  o_sortBy :: "string option"
  o_sortOrder :: "string option"
  o_search :: "string option"
  o_subjectId :: "oid option"
  o_level :: "string option"
  o_difficulty :: "string option"
  o_premiumOnly :: "bool option"
  o_isActive :: "bool option"

definition holds :: "('a \<Rightarrow> bool) \<Rightarrow> 'a option \<Rightarrow> bool" where
  "holds P v = (case v of None \<Rightarrow> True | Some x \<Rightarrow> P x)"

definition quiz_matches :: "quiz_query \<Rightarrow> quiz \<Rightarrow> bool" where
  "quiz_matches query q =
     (holds (\<lambda>v. isActive q = v) (f_isActive query) \<and>
      holds (\<lambda>v. subjectId q = v) (f_subjectId query) \<and>
      holds (\<lambda>v. level q = v) (f_level query) \<and>
      holds (\<lambda>v. difficulty q = v) (f_difficulty query) \<and>
      holds (\<lambda>v. premiumOnly q = v) (f_premiumOnly query) \<and>
      holds (\<lambda>m. m (title q) \<or> m (description q) \<or> list_ex m (tags q)) (f_or query))"

text \<open>\<open>Object.assign(query, filters)\<close>: a key of \<open>filters\<close> replaces the key of \<open>query\<close>.\<close>

definition orElse :: "'a option \<Rightarrow> 'a option \<Rightarrow> 'a option" where
  "orElse a b = (case a of None \<Rightarrow> b | Some x \<Rightarrow> Some x)"

definition assign :: "quiz_query \<Rightarrow> quiz_query \<Rightarrow> quiz_query" where
  "assign query filters =
     \<lparr>f_isActive = orElse (f_isActive filters) (f_isActive query),
      f_subjectId = orElse (f_subjectId filters) (f_subjectId query),
      f_level = orElse (f_level filters) (f_level query),
      f_difficulty = orElse (f_difficulty filters) (f_difficulty query),
      f_premiumOnly = orElse (f_premiumOnly filters) (f_premiumOnly query),
      f_or = orElse (f_or filters) (f_or query)\<rparr>"

text \<open>The sort key of a quiz for a field name; a field no quiz has orders nothing.\<close>

definition quiz_sort_key :: "string \<Rightarrow> quiz \<Rightarrow> (int \<times> rat) \<times> string" where
  "quiz_sort_key sortBy q =
     (if sortBy = ''createdAt'' then ((0, of_int (createdAt q)), [])
      else if sortBy = ''updatedAt'' then ((0, of_int (updatedAt q)), [])
      else if sortBy = ''totalQuestions'' then ((0, of_int (totalQuestions q)), [])
      else if sortBy = ''totalPoints'' then (double_key (totalPoints q), [])
      else if sortBy = ''title'' then ((0, 0), title q)
      else if sortBy = ''level'' then ((0, 0), level q)
      else if sortBy = ''difficulty'' then ((0, 0), difficulty q)
      else ((0, 0), []))"

record pagination =
  currentPage :: int
  totalPages :: js_number
  totalItems :: int
  itemsPerPage :: int
  hasNext :: bool
  hasPrev :: bool

text \<open>
  The regular-expression engine is a parameter: \<open>regex p\<close> is the pattern \<open>p\<close> compiled
  with the flag \<open>i\<close>, as the test it performs on a string, or \<open>None\<close> when \<open>p\<close> is not a
  valid pattern (the constructor or the database then throws).
\<close>

text \<open>
  The query as it stands before the search clause is added: \<open>isActive\<close> (true unless
  the options say otherwise) and the options that are set.
\<close>

definition build_query :: "quiz_options \<Rightarrow> quiz_query" where
  "build_query options =
     (let isActive' = (case o_isActive options of None \<Rightarrow> True | Some b \<Rightarrow> b)
      in \<lparr>f_isActive = Some isActive',
          f_subjectId = (if truthy (o_subjectId options) then o_subjectId options else None),
          f_level = (if truthy (o_level options) then o_level options else None),
          f_difficulty = (if truthy (o_difficulty options) then o_difficulty options else None),
          f_premiumOnly = o_premiumOnly options,
          f_or = None\<rparr>)"

definition getAllQuizzes ::
  "(string \<Rightarrow> (string \<Rightarrow> bool) option) \<Rightarrow> store \<Rightarrow> quiz_query \<Rightarrow> quiz_options
     \<Rightarrow> error + (quiz list \<times> pagination) ApiResponse" where
  "getAllQuizzes regex st filters options =
     (let page = (case o_page options of None \<Rightarrow> 1 | Some p \<Rightarrow> p);
          limit' = (case o_limit options of None \<Rightarrow> 10 | Some l \<Rightarrow> l);
          sortBy = (case o_sortBy options of None \<Rightarrow> ''createdAt'' | Some s \<Rightarrow> s);
          sortOrder = (case o_sortOrder options of None \<Rightarrow> ''desc'' | Some s \<Rightarrow> s);
          query0 = build_query options
      in if truthy (o_search options) \<and> regex (the (o_search options)) = None
         then Inl (ApiError 500 ''Failed to retrieve quizzes'' [])
         else
           let query1 = (if truthy (o_search options)
                         then query0\<lparr>f_or := regex (the (o_search options))\<rparr> else query0);
               query = assign query1 filters;
               skip = (page - 1) * limit';
               sortOptions = (if sortOrder = ''desc'' then - 1 else 1)
           in if skip < 0 then Inl (ApiError 500 ''Failed to retrieve quizzes'' [])
              else
                let found = filter (quiz_matches query) (quizzes st);
                    quizzes' = limit_docs limit'
                                 (skip_docs skip (sort_docs (quiz_sort_key sortBy) sortOptions found));
                    total' = int (length found);
                    pagination = \<lparr>currentPage = page,
                                   totalPages = Math_ceil_quotient total' limit',
                                   totalItems = total',
                                   itemsPerPage = limit',
                                   hasNext = js_less page (Math_ceil_quotient total' limit'),
                                   hasPrev = (page > 1)\<rparr>
                in Inr \<lparr>statusCode = 200, data = (quizzes', pagination),
                        message = Some ''Quizzes retrieved successfully''\<rparr>)"

subsection \<open>canUserTakeQuiz\<close>

text \<open>
  Modelled from the spec: the Quiz model's methods \<open>canUserRetake\<close> and
  \<open>getNextRetakeTime\<close> are not among the source files. The spec has the attempt count
  compared against \<open>retakePolicy.maxAttempts\<close>, and the next retake time computed from
  the most recent attempt's timestamp plus the configured cooldown (here in the unit of
  the timestamp).
\<close>

definition canUserRetake :: "quiz \<Rightarrow> int \<Rightarrow> bool" where
  "canUserRetake q userAttempts = (userAttempts < maxAttempts (retakePolicy q))"

definition getNextRetakeTime :: "quiz \<Rightarrow> int \<Rightarrow> int" where
  "getNextRetakeTime q lastAttemptAt = lastAttemptAt + cooldown (retakePolicy q)"

record eligibility =
  canTake :: bool
  reason :: "string option"
  attemptsUsed :: int
  e_maxAttempts :: int
  nextRetakeTime :: "int option option"

text \<open>
  \<open>nextRetakeTime\<close> is \<open>None\<close> where the response object has no such key, \<open>Some None\<close>
  where it is \<open>null\<close>. \<open>lastAttempt\<close> is the user's result on the quiz with the greatest
  \<open>createdAt\<close>, \<open>None\<close> (\<open>null\<close>) when the user has none; reading \<open>createdAt\<close> of \<open>null\<close>
  throws, which the \<open>catch\<close> block turns into the error 500.
\<close>

fun lastAttempt :: "quiz_result list \<Rightarrow> quiz_result option" where
  "lastAttempt [] = None"
| "lastAttempt (r # rs) =
     (case lastAttempt rs of
        None \<Rightarrow> Some r
      | Some r' \<Rightarrow> if result_createdAt r < result_createdAt r' then Some r' else Some r)"

definition canUserTakeQuiz ::
  "int \<Rightarrow> store \<Rightarrow> oid \<Rightarrow> oid \<Rightarrow> error + eligibility ApiResponse" where
  "canUserTakeQuiz now st quizId' userId' =
     (case findById (quizzes st) quizId' of
        None \<Rightarrow> Inl (ApiError 404 ''Quiz not found'' [])
      | Some q \<Rightarrow>
          let attempts = filter (\<lambda>r. quizId r = quizId' \<and> userId r = userId') (quizResults st);
              userAttempts = int (length attempts)
          in if \<not> canUserRetake q userAttempts
             then (case lastAttempt attempts of
                     None \<Rightarrow> Inl (ApiError 500 ''Failed to check quiz eligibility'' [])
                   | Some la \<Rightarrow>
                       let next = getNextRetakeTime q (result_createdAt la)
                       in Inr \<lparr>statusCode = 200,
                               data = \<lparr>canTake = False,
                                       reason = Some ''Maximum attempts reached'',
                                       attemptsUsed = userAttempts,
                                       e_maxAttempts = maxAttempts (retakePolicy q),
                                       nextRetakeTime =
                                         Some (if next > now then Some next else None)\<rparr>,
                               message = None\<rparr>)
             else Inr \<lparr>statusCode = 200,
                       data = \<lparr>canTake = True, reason = None, attemptsUsed = userAttempts,
                               e_maxAttempts = maxAttempts (retakePolicy q),
                               nextRetakeTime = None\<rparr>,
                       message = None\<rparr>)"

subsection \<open>updateQuizAnalytics\<close>

text \<open>
  The result is \<open>Inr None\<close> where the function returns without a value (\<open>undefined\<close>).
  \<open>findByIdAndUpdate\<close> of an id no quiz has changes nothing and is no error. The sums
  are accumulated from the left, starting at 0, each addition and each quotient rounded
  to a double; the lengths are integers, which are doubles as they stand.
\<close>

definition updateQuizAnalytics ::
  "store \<Rightarrow> oid \<Rightarrow> store \<times> (error + analytics ApiResponse option)" where
  "updateQuizAnalytics st quizId' =
     (let results = find_results (quizResults st) quizId'
      in if length results = 0 then (st, Inr None)
         else
           let totalAttempts' = Finite (of_nat (length results));
               totalScore = foldl (\<lambda>sum r. dadd sum (score r)) (Finite 0) results;
               totalTime = foldl (\<lambda>sum r. dadd sum (timeTaken r)) (Finite 0) results;
               completedResults = filter (\<lambda>r. dless (Finite 0) (score r)) results;
               analytics' =
                 \<lparr>totalAttempts = int (length results),
                  averageScore = Math_round (ddiv totalScore totalAttempts'),
                  averageTime = Math_round (ddiv totalTime totalAttempts'),
                  completionRate =
                    Math_round (dmul (ddiv (Finite (of_nat (length completedResults)))
                                       totalAttempts')
                                  (Finite 100))\<rparr>
           in (case findByIdAndUpdate (quizzes st) quizId' (no_update\<lparr>u_analytics := Some analytics'\<rparr>) of
                 None \<Rightarrow> st
               | Some (qs', q') \<Rightarrow> st\<lparr>quizzes := qs'\<rparr>,
               Inr (Some \<lparr>statusCode = 200, data = analytics',
                          message = Some ''Quiz analytics updated successfully''\<rparr>)))"

subsection \<open>calculateScoreDistribution\<close>

text \<open>
  The bounds are the products of the total points with the doubles nearest to 0.2,
  0.4, 0.6 and 0.8, each product rounded to a double.
\<close>

record score_range =
  label :: string
  range_min :: double
  range_max :: double

record bucket =
  bucket_label :: string
  count :: int

definition ranges :: "double \<Rightarrow> score_range list" where
  "ranges totalPoints' =
     [\<lparr>label = ''0-20%'', range_min = Finite 0,
       range_max = dmul totalPoints' (to_double 0.2)\<rparr>,
      \<lparr>label = ''21-40%'', range_min = dmul totalPoints' (to_double 0.2),
       range_max = dmul totalPoints' (to_double 0.4)\<rparr>,
      \<lparr>label = ''41-60%'', range_min = dmul totalPoints' (to_double 0.4),
       range_max = dmul totalPoints' (to_double 0.6)\<rparr>,
      \<lparr>label = ''61-80%'', range_min = dmul totalPoints' (to_double 0.6),
       range_max = dmul totalPoints' (to_double 0.8)\<rparr>,
      \<lparr>label = ''81-100%'', range_min = dmul totalPoints' (to_double 0.8),
       range_max = totalPoints'\<rparr>]"

definition calculateScoreDistribution :: "quiz_result list \<Rightarrow> double \<Rightarrow> bucket list" where
  "calculateScoreDistribution results totalPoints' =
     map (\<lambda>rg. \<lparr>bucket_label = label rg,
                count = int (length (filter (\<lambda>r. dless (range_min rg) (score r)
                                                   \<and> dle (score r) (range_max rg))
                                       results))\<rparr>)
         (ranges totalPoints')"

section \<open>SubjectService\<close>

record subject =
  subject_id :: oid
  name :: string
  code :: string
  subject_description :: string
  category :: string
  examTypes :: "string list"
  countries :: "string list"
  educationLevels :: "string list"
  series :: "string list"
  subject_isActive :: bool
  isPremium :: bool
  isFeatured :: bool
  status :: string

record subject_data =
  d_name :: string
  d_code :: string
  d_description :: string
  d_category :: string
  d_examTypes :: "string list"
  d_countries :: "string list"
  d_educationLevels :: "string list"
  d_series :: "string list"
  d_isPremium :: bool
  d_isFeatured :: bool

text \<open>\<open>String.prototype.toUpperCase\<close> on ASCII text.\<close>

definition toUpperCase_char :: "char \<Rightarrow> char" where
  "toUpperCase_char c =
     (let n = (of_char c :: nat) in if 97 \<le> n \<and> n \<le> 122 then char_of (n - 32) else c)"

definition toUpperCase :: "string \<Rightarrow> string" where
  "toUpperCase s = map toUpperCase_char s"

text \<open>
  Modelled from the spec: the Subject model is not among the source files. The spec has
  the code stored uppercased and the status one of active and inactive, a subject
  leaving the active state only by the soft delete; a new subject is therefore stored
  active. \<open>new_id\<close> is the identifier the persistence layer gives the document.
\<close>

definition new_Subject :: "oid \<Rightarrow> subject_data \<Rightarrow> subject" where
  "new_Subject new_id subjectData =
     \<lparr>subject_id = new_id, name = d_name subjectData, code = toUpperCase (d_code subjectData),
      subject_description = d_description subjectData, category = d_category subjectData,
      examTypes = d_examTypes subjectData, countries = d_countries subjectData,
      educationLevels = d_educationLevels subjectData, series = d_series subjectData,
      subject_isActive = True, isPremium = d_isPremium subjectData,
      isFeatured = d_isFeatured subjectData, status = ''active''\<rparr>"

subsection \<open>createSubject\<close>

text \<open>
  The name is looked up with the pattern \<open>^name$\<close>, built from the name as it was
  received and compiled with the flag \<open>i\<close>.
\<close>

definition createSubject ::
  "(string \<Rightarrow> (string \<Rightarrow> bool) option) \<Rightarrow> oid \<Rightarrow> subject list \<Rightarrow> subject_data
     \<Rightarrow> subject list \<times> (error + subject)" where
  "createSubject regex new_id subjects subjectData =
     (case find (\<lambda>s. code s = toUpperCase (d_code subjectData)) subjects of
        Some existingSubject \<Rightarrow>
          (subjects, Inl (ConflictError ''Une matiere avec ce code existe deja''))
      | None \<Rightarrow>
          (case regex (''^'' @ d_name subjectData @ ''$'') of
             None \<Rightarrow> (subjects, Inl SyntaxError)
           | Some m \<Rightarrow>
               (case find (\<lambda>s. m (name s)) subjects of
                  Some existingName \<Rightarrow>
                    (subjects, Inl (ConflictError ''Une matiere avec ce nom existe deja''))
                | None \<Rightarrow>
                    (subjects @ [new_Subject new_id subjectData],
                     Inr (new_Subject new_id subjectData)))))"

subsection \<open>getSubjects\<close>

text \<open>The request's query string: every value is a string or absent, but the two numbers.\<close>

record subject_query =
  q_page :: "int option"
  q_limit :: "int option"
  q_category :: "string option"
  q_examType :: "string option"
  q_country :: "string option"
  q_educationLevel :: "string option"
  q_series :: "string option"
  q_isActive :: "string option"
  q_isPremium :: "string option"
  q_isFeatured :: "string option"
  q_search :: "string option"
  q_sortBy :: "string option"
  q_sortOrder :: "string option"

text \<open>
  The filter object. A condition on an array field holds when the array has the value
  as an element. The \<open>$or\<close> clause tests the name, the description and the code.
\<close>

record subject_filter =
  sf_status :: string
  sf_category :: "string option"
  sf_examTypes :: "string option"
  sf_countries :: "string option"
  sf_educationLevels :: "string option"
  sf_series :: "string option"
  sf_isActive :: "bool option"
  sf_isPremium :: "bool option"
  sf_isFeatured :: "bool option"
  sf_or :: "(string \<Rightarrow> bool) option"

definition subject_matches :: "subject_filter \<Rightarrow> subject \<Rightarrow> bool" where
  "subject_matches flt s =
     (status s = sf_status flt \<and>
      holds (\<lambda>v. category s = v) (sf_category flt) \<and>
      holds (\<lambda>v. v \<in> set (examTypes s)) (sf_examTypes flt) \<and>
      holds (\<lambda>v. v \<in> set (countries s)) (sf_countries flt) \<and>
      holds (\<lambda>v. v \<in> set (educationLevels s)) (sf_educationLevels flt) \<and>
      holds (\<lambda>v. v \<in> set (series s)) (sf_series flt) \<and>
      holds (\<lambda>v. subject_isActive s = v) (sf_isActive flt) \<and>
      holds (\<lambda>v. isPremium s = v) (sf_isPremium flt) \<and>
      holds (\<lambda>v. isFeatured s = v) (sf_isFeatured flt) \<and>
      holds (\<lambda>m. m (name s) \<or> m (subject_description s) \<or> m (code s)) (sf_or flt))"

definition subject_sort_key :: "string \<Rightarrow> subject \<Rightarrow> string" where
  "subject_sort_key sortBy s =
     (if sortBy = ''name'' then name s
      else if sortBy = ''code'' then code s
      else if sortBy = ''category'' then category s
      else if sortBy = ''status'' then status s
      else [])"

record subject_pagination =
  sp_currentPage :: int
  sp_totalPages :: js_number
  totalCount :: int
  hasNextPage :: bool
  hasPrevPage :: bool

text \<open>The filter as it stands before the search clause is added.\<close>

definition build_filter :: "subject_query \<Rightarrow> subject_filter" where
  "build_filter query =
     \<lparr>sf_status = ''active'',
      sf_category = (if truthy (q_category query) then q_category query else None),
      sf_examTypes = (if truthy (q_examType query) then q_examType query else None),
      sf_countries = (if truthy (q_country query) then q_country query else None),
      sf_educationLevels =
        (if truthy (q_educationLevel query) then q_educationLevel query else None),
      sf_series = (if truthy (q_series query) then q_series query else None),
      sf_isActive = map_option (\<lambda>v. v = ''true'') (q_isActive query),
      sf_isPremium = map_option (\<lambda>v. v = ''true'') (q_isPremium query),
      sf_isFeatured = map_option (\<lambda>v. v = ''true'') (q_isFeatured query),
      sf_or = None\<rparr>"

definition getSubjects ::
  "(string \<Rightarrow> (string \<Rightarrow> bool) option) \<Rightarrow> subject list \<Rightarrow> subject_query
     \<Rightarrow> error + (subject list \<times> subject_pagination)" where
  "getSubjects regex subjects query =
     (let page = (case q_page query of None \<Rightarrow> 1 | Some p \<Rightarrow> p);
          limit' = (case q_limit query of None \<Rightarrow> 10 | Some l \<Rightarrow> l);
          sortBy = (case q_sortBy query of None \<Rightarrow> ''name'' | Some s \<Rightarrow> s);
          sortOrder = (case q_sortOrder query of None \<Rightarrow> ''asc'' | Some s \<Rightarrow> s);
          flt0 = build_filter query
      in if truthy (q_search query) \<and> regex (the (q_search query)) = None
         then Inl MongoError
         else
           let flt = (if truthy (q_search query)
                      then flt0\<lparr>sf_or := regex (the (q_search query))\<rparr> else flt0);
               dir = (if sortOrder = ''desc'' then - 1 else 1);
               skip = (page - 1) * limit'
           in if skip < 0 then Inl MongoError
              else
                let found = filter (subject_matches flt) subjects;
                    subjects' = limit_docs limit'
                                  (skip_docs skip (sort_docs (subject_sort_key sortBy) dir found));
                    total' = int (length found);
                    pagination = \<lparr>sp_currentPage = page,
                                   sp_totalPages = Math_ceil_quotient total' limit',
                                   totalCount = total',
                                   hasNextPage = js_less page (Math_ceil_quotient total' limit'),
                                   hasPrevPage = (page > 1)\<rparr>
                in Inr (subjects', pagination))"

subsection \<open>deleteSubject\<close>

fun update_first :: "('d \<Rightarrow> bool) \<Rightarrow> ('d \<Rightarrow> 'd) \<Rightarrow> 'd list \<Rightarrow> 'd list" where
  "update_first P f [] = []"
| "update_first P f (d # ds) = (if P d then f d # ds else d # update_first P f ds)"

definition deleteSubject :: "subject list \<Rightarrow> oid \<Rightarrow> subject list \<times> (error + unit)" where
  "deleteSubject subjects subjectId' =
     (case find (\<lambda>s. subject_id s = subjectId') subjects of
        None \<Rightarrow> (subjects, Inl (NotFoundError ''Matiere non trouvee''))
      | Some s \<Rightarrow>
          (update_first (\<lambda>s. subject_id s = subjectId')
             (\<lambda>s. s\<lparr>subject_isActive := False, status := ''inactive''\<rparr>) subjects,
           Inr ()))"

section \<open>PhysicsLessonController\<close>

text \<open>
  The handlers read the lesson's creator from the Lesson collection, then call the
  physics lesson service. The service is not among the source files and is a parameter:
  a function from the collection to the collection after the call and the service's
  result. A handler's normal result is the HTTP status and the body it sends. A lesson
  without \<open>metadata.createdBy\<close> makes \<open>toString\<close> throw.
\<close>

record 'c lesson =
  lesson_id :: oid
  createdBy :: "oid option"
  content :: 'c

record user =
  user_id :: oid
  role :: string

record 'b request =
  params_id :: oid
  body :: 'b
  req_user :: user

definition updateLesson ::
  "(oid \<Rightarrow> 'b \<Rightarrow> oid \<Rightarrow> 'c lesson list \<Rightarrow> 'c lesson list \<times> (error + 'r ApiResponse))
     \<Rightarrow> 'c lesson list \<Rightarrow> 'b request
     \<Rightarrow> 'c lesson list \<times> (error + int \<times> 'r ApiResponse)" where
  "updateLesson service_updateLesson lessons req =
     (case find (\<lambda>l. lesson_id l = params_id req) lessons of
        None \<Rightarrow> (lessons, Inl (ApiError 404 ''Lecon de physique introuvable'' []))
      | Some lesson \<Rightarrow>
          (case createdBy lesson of
             None \<Rightarrow> (lessons, Inl TypeError)
           | Some creator \<Rightarrow>
               if creator \<noteq> user_id (req_user req) \<and> role (req_user req) \<noteq> ''admin''
               then (lessons,
                     Inl (ApiError 403 ''Non autorise a mettre a jour cette lecon de physique'' []))
               else (case service_updateLesson (params_id req) (body req)
                            (user_id (req_user req)) lessons of
                       (lessons', Inl e) \<Rightarrow> (lessons', Inl e)
                     | (lessons', Inr result) \<Rightarrow> (lessons', Inr (statusCode result, result)))))"

definition deleteLesson ::
  "(oid \<Rightarrow> 'c lesson list \<Rightarrow> 'c lesson list \<times> (error + 'r ApiResponse))
     \<Rightarrow> 'c lesson list \<Rightarrow> 'b request
     \<Rightarrow> 'c lesson list \<times> (error + int \<times> 'r ApiResponse)" where
  "deleteLesson service_deleteLesson lessons req =
     (case find (\<lambda>l. lesson_id l = params_id req) lessons of
        None \<Rightarrow> (lessons, Inl (ApiError 404 ''Lecon de physique introuvable'' []))
      | Some lesson \<Rightarrow>
          (case createdBy lesson of
             None \<Rightarrow> (lessons, Inl TypeError)
           | Some creator \<Rightarrow>
               if creator \<noteq> user_id (req_user req) \<and> role (req_user req) \<noteq> ''admin''
               then (lessons,
                     Inl (ApiError 403 ''Non autorise a supprimer cette lecon de physique'' []))
               else (case service_deleteLesson (params_id req) lessons of
                       (lessons', Inl e) \<Rightarrow> (lessons', Inl e)
                     | (lessons', Inr result) \<Rightarrow> (lessons', Inr (statusCode result, result)))))"

section \<open>A reference regular-expression engine\<close>

text \<open>
  The services take the regular-expression engine as a parameter. To run them on
  concrete input, this section gives the engine for a fragment of the pattern language:
  literal characters, \<open>.\<close>, groups in parentheses, alternation with \<open>|\<close>, the postfix
  operators \<open>*\<close>, \<open>+\<close> and \<open>?\<close> applied once to a character or a group, \<open>^\<close> as the first
  and \<open>$\<close> as the last character of the pattern. With the flag \<open>i\<close> a letter matches both
  of its cases. A pattern that uses anything else (escapes, classes, braces, special
  groups, lazy or repeated postfix operators, inner anchors) is outside the fragment.
\<close>

datatype rexp =
    Null
  | Eps
  | Sym char
  | Dot
  | AnyChar
  | Alt rexp rexp
  | Seq rexp rexp
  | Star rexp

fun nullable :: "rexp \<Rightarrow> bool" where
  "nullable Null = False"
| "nullable Eps = True"
| "nullable (Sym c) = False"
| "nullable Dot = False"
| "nullable AnyChar = False"
| "nullable (Alt r s) = (nullable r \<or> nullable s)"
| "nullable (Seq r s) = (nullable r \<and> nullable s)"
| "nullable (Star r) = True"

text \<open>\<open>deriv c r\<close> matches what is left of a string matched by \<open>r\<close> once \<open>c\<close> is read.\<close>

fun deriv :: "char \<Rightarrow> rexp \<Rightarrow> rexp" where
  "deriv c Null = Null"
| "deriv c Eps = Null"
| "deriv c (Sym d) = (if toUpperCase_char c = toUpperCase_char d then Eps else Null)"
| "deriv c Dot = (if c = CHR 0x0A \<or> c = CHR 0x0D then Null else Eps)"
| "deriv c AnyChar = Eps"
| "deriv c (Alt r s) = Alt (deriv c r) (deriv c s)"
| "deriv c (Seq r s) =
     (if nullable r then Alt (Seq (deriv c r) s) (deriv c s) else Seq (deriv c r) s)"
| "deriv c (Star r) = Seq (deriv c r) (Star r)"

fun rmatch :: "rexp \<Rightarrow> string \<Rightarrow> bool" where
  "rmatch r [] = nullable r"
| "rmatch r (c # cs) = rmatch (deriv c r) cs"

datatype parsed = Parsed rexp | Invalid | Outside

fun seq_of :: "rexp list \<Rightarrow> rexp" where
  "seq_of [] = Eps"
| "seq_of (r # rs) = Seq r (seq_of rs)"

fun alt_of :: "rexp list \<Rightarrow> rexp" where
  "alt_of [] = Null"
| "alt_of [r] = r"
| "alt_of (r # rs) = Alt r (alt_of rs)"

text \<open>
  A frame is a group being read: the alternatives that are complete and the items of
  the current one, both latest first. \<open>close_frame\<close> is the expression of the group.
\<close>

definition close_frame :: "rexp list \<times> rexp list \<Rightarrow> rexp" where
  "close_frame fr = alt_of (rev (seq_of (rev (snd fr)) # fst fr))"

text \<open>
  \<open>parse q fr stack cs\<close> reads the pattern \<open>cs\<close> inside the frame \<open>fr\<close>, with the frames
  of the enclosing groups in \<open>stack\<close>; \<open>q\<close> says that a postfix operator may follow.
\<close>

fun parse :: "bool \<Rightarrow> rexp list \<times> rexp list \<Rightarrow> (rexp list \<times> rexp list) list \<Rightarrow> string
    \<Rightarrow> parsed" where
  "parse q fr stack [] = (if stack = [] then Parsed (close_frame fr) else Invalid)"
| "parse q (alts, items) stack (c # cs) =
     (if c = CHR ''('' then
        (case cs of
           d # ds \<Rightarrow> if d = CHR ''?'' then Outside
                     else parse False ([], []) ((alts, items) # stack) cs
         | [] \<Rightarrow> Invalid)
      else if c = CHR '')'' then
        (case stack of
           [] \<Rightarrow> Invalid
         | (alts', items') # stack' \<Rightarrow>
             parse True (alts', close_frame (alts, items) # items') stack' cs)
      else if c = CHR ''|'' then parse False (seq_of (rev items) # alts, []) stack cs
      else if c = CHR ''*'' \<or> c = CHR ''+'' \<or> c = CHR ''?'' then
        (case items of
           [] \<Rightarrow> if q then Outside else Invalid
         | r # rs \<Rightarrow>
             if \<not> q then Outside
             else parse False
                    (alts,
                     (if c = CHR ''*'' then Star r
                      else if c = CHR ''+'' then Seq r (Star r)
                      else Alt r Eps) # rs)
                    stack cs)
      else if c = CHR ''.'' then parse True (alts, Dot # items) stack cs
      else if c = CHR 0x5C \<or> c \<in> set ''[]{}^$'' then Outside
      else parse True (alts, Sym c # items) stack cs)"

text \<open>
  \<open>top_level_bar 0 cs\<close>: the pattern \<open>cs\<close> has a \<open>|\<close> outside every group. An anchor then
  belongs to one alternative only, which is outside the fragment.
\<close>

fun top_level_bar :: "nat \<Rightarrow> string \<Rightarrow> bool" where
  "top_level_bar depth [] = False"
| "top_level_bar depth (c # cs) =
     (if c = CHR ''('' then top_level_bar (Suc depth) cs
      else if c = CHR '')'' then top_level_bar (depth - 1) cs
      else if c = CHR ''|'' \<and> depth = 0 then True
      else top_level_bar depth cs)"

text \<open>
  The test of the compiled pattern: a search for a match anywhere in the string, tied
  to its start by a leading \<open>^\<close> and to its end by a trailing \<open>$\<close>. It is \<open>None\<close> for an
  invalid pattern and, in this reference engine, for one outside the fragment too.
\<close>

definition RegExp_i :: "string \<Rightarrow> (string \<Rightarrow> bool) option" where
  "RegExp_i pattern =
     (let bol = (pattern \<noteq> [] \<and> hd pattern = CHR ''^'');
          p1 = (if bol then tl pattern else pattern);
          eol = (p1 \<noteq> [] \<and> last p1 = CHR ''$'');
          p2 = (if eol then butlast p1 else p1)
      in if (bol \<or> eol) \<and> top_level_bar 0 p2 then None
         else
           (case parse False ([], []) [] p2 of
              Parsed r \<Rightarrow>
                Some (rmatch (Seq (if bol then Eps else Star AnyChar)
                                (Seq r (if eol then Eps else Star AnyChar))))
            | Invalid \<Rightarrow> None
            | Outside \<Rightarrow> None))"

section \<open>Sample documents\<close>

definition sample_quiz :: quiz where
  "sample_quiz =
     \<lparr>quiz_id = ''q1'', title = ''Mecanique'', description = ''Forces et mouvement'',
      tags = [''physique''], subjectId = ''s1'', level = ''terminale'',
      difficulty = ''intermediate'', premiumOnly = False, questionIds = [''qa''],
      totalQuestions = 1, totalPoints = Finite 20,
      retakePolicy = \<lparr>maxAttempts = 4, cooldown = 3600000\<rparr>,
      quiz_analytics = \<lparr>totalAttempts = 0, averageScore = Finite 0,
                         averageTime = Finite 0, completionRate = Finite 0\<rparr>,
      isActive = True, createdAt = 1000, updatedAt = 1000\<rparr>"

definition sample_result :: "oid \<Rightarrow> rat \<Rightarrow> rat \<Rightarrow> int \<Rightarrow> quiz_result" where
  "sample_result i sc tm t =
     \<lparr>result_id = i, quizId = ''q1'', userId = ''u1'', score = to_double sc,
      timeTaken = to_double tm, result_createdAt = t\<rparr>"

definition sample_results :: "quiz_result list" where
  "sample_results =
     [sample_result ''r1'' 10 300 2000, sample_result ''r2'' 15 240 5000,
      sample_result ''r3'' 18 200 4000, sample_result ''r4'' 20 185 3000]"

text \<open>Four results with the same scores and with durations that are not integers.\<close>

definition fractional_results :: "quiz_result list" where
  "fractional_results =
     [sample_result ''r1'' 10 0.1 2000, sample_result ''r2'' 15 0.2 5000,
      sample_result ''r3'' 18 1.7 4000, sample_result ''r4'' 20 0 3000]"

definition sample_store :: store where
  "sample_store = \<lparr>quizzes = [sample_quiz], quizResults = sample_results\<rparr>"

definition fresh_store :: store where
  "fresh_store = \<lparr>quizzes = [sample_quiz], quizResults = []\<rparr>"


definition no_validators :: "quiz_update \<Rightarrow> string list" where
  "no_validators updateData = []"

definition sample_subject :: subject where
  "sample_subject =
     \<lparr>subject_id = ''s1'', name = ''Physique (Terminale)'', code = ''PHY01'',
      subject_description = ''Physique'', category = ''sciences'', examTypes = [''bac''],
      countries = [''TD''], educationLevels = [''lycee''], series = [''D''],
      subject_isActive = True, isPremium = False, isFeatured = False, status = ''active''\<rparr>"

definition sample_subjects :: "subject list" where
  "sample_subjects =
     [sample_subject,
      sample_subject\<lparr>subject_id := ''s2'', name := ''Chimie'', code := ''CHI01''\<rparr>,
      sample_subject\<lparr>subject_id := ''s3'', name := ''Histoire'', code := ''HIS01'',
                      subject_isActive := False, status := ''inactive''\<rparr>,
      sample_subject\<lparr>subject_id := ''s4'', name := ''Anglais'', code := ''ANG01''\<rparr>]"

definition sample_subject_data :: subject_data where
  "sample_subject_data =
     \<lparr>d_name = ''Physique (Terminale)'', d_code = ''phy02'', d_description = ''Physique'',
      d_category = ''sciences'', d_examTypes = [''bac''], d_countries = [''TD''],
      d_educationLevels = [''lycee''], d_series = [''D''], d_isPremium = False,
      d_isFeatured = False\<rparr>"

definition no_query :: subject_query where
  "no_query =
     \<lparr>q_page = None, q_limit = None, q_category = None, q_examType = None, q_country = None,
      q_educationLevel = None, q_series = None, q_isActive = None, q_isPremium = None,
      q_isFeatured = None, q_search = None, q_sortBy = None, q_sortOrder = None\<rparr>"

definition no_filters :: quiz_query where
  "no_filters =
     \<lparr>f_isActive = None, f_subjectId = None, f_level = None, f_difficulty = None,
      f_premiumOnly = None, f_or = None\<rparr>"

definition no_options :: quiz_options where
  "no_options =
     \<lparr>o_page = None, o_limit = None, o_sortBy = None, o_sortOrder = None, o_search = None,
      o_subjectId = None, o_level = None, o_difficulty = None, o_premiumOnly = None,
      o_isActive = None\<rparr>"

definition sample_lesson :: "unit lesson" where
  "sample_lesson = \<lparr>lesson_id = ''l1'', createdBy = Some ''teacher1'', content = ()\<rparr>"

definition sample_request :: "oid \<Rightarrow> unit request" where
  "sample_request i =
     \<lparr>params_id = i, body = (), req_user = \<lparr>user_id = ''teacher2'', role = ''teacher''\<rparr>\<rparr>"

definition service_stub ::
  "unit lesson list \<Rightarrow> unit lesson list \<times> (error + unit ApiResponse)" where
  "service_stub lessons = ([], Inr \<lparr>statusCode = 200, data = (), message = None\<rparr>)"

section \<open>Properties of the collection operations\<close>

lemma findById_quiz_id: "findById qs i = Some q \<Longrightarrow> quiz_id q = i"
  by (induction qs) (auto split: if_splits)

lemma findById_absent: "i \<notin> quiz_id ` set qs \<Longrightarrow> findById qs i = None"
  by (induction qs) auto

lemma findByIdAndDelete_removes:
  "distinct (map quiz_id qs) \<Longrightarrow> i \<notin> quiz_id ` set (findByIdAndDelete qs i)"
  by (induction qs) auto

lemma findById_save:
  "findById qs (quiz_id d) = Some q \<Longrightarrow> findById (save qs d) (quiz_id d) = Some d"
  by (induction qs) (auto split: if_splits)

lemma quiz_id_apply_update: "quiz_id (apply_update u q) = quiz_id q"
  by (simp add: apply_update_def)

lemma findByIdAndUpdate_Some:
  "findByIdAndUpdate qs i u = Some (qs', q') \<Longrightarrow>
     findById qs' i = Some q' \<and> (\<exists>q. findById qs i = Some q \<and> q' = apply_update u q)"
proof (induction qs arbitrary: qs')
  case Nil
  then show ?case by simp
next
  case (Cons a qs)
  show ?case
  proof (cases "quiz_id a = i")
    case True
    with Cons.prems show ?thesis by (auto simp: quiz_id_apply_update)
  next
    case False
    with Cons.prems obtain qs'' where r: "findByIdAndUpdate qs i u = Some (qs'', q')"
      and q: "qs' = a # qs''"
      by (auto split: option.splits)
    from Cons.IH [OF r] False q show ?thesis by simp
  qed
qed

lemma findByIdAndUpdate_found:
  "findById qs i = Some q \<Longrightarrow> \<exists>qs'. findByIdAndUpdate qs i u = Some (qs', apply_update u q)"
  by (induction qs) (auto split: if_splits)

lemma length_limit_docs: "1 \<le> n \<Longrightarrow> int (length (limit_docs n ds)) \<le> n"
  by (simp add: limit_docs_def)

lemma set_limit_docs: "set (limit_docs n ds) \<subseteq> set ds"
  by (auto simp: limit_docs_def dest: in_set_takeD)

lemma set_skip_docs: "set (skip_docs n ds) \<subseteq> set ds"
  by (auto simp: skip_docs_def dest: in_set_dropD)

lemma set_sort_docs: "set (sort_docs key dir ds) = set ds"
  by (simp add: sort_docs_def)

section \<open>Arithmetic of the JavaScript number functions\<close>

lemma floor_numeral_quotient:
  "\<lfloor>(numeral a :: rat) / numeral b\<rfloor> = (numeral a div numeral b :: int)"
  using floor_divide_of_int_eq [of "numeral a" "numeral b", where ?'a = rat] by simp

lemma ceiling_quotient_bounds:
  fixes t l :: int
  assumes "0 < l"
  shows "(\<lceil>(of_int t :: rat) / of_int l\<rceil> - 1) * l < t
       \<and> t \<le> \<lceil>(of_int t :: rat) / of_int l\<rceil> * l"
proof -
  define n where "n = \<lceil>(of_int t :: rat) / of_int l\<rceil>"
  have l: "(0::rat) < of_int l" using assms by simp
  from ceiling_correct [of "(of_int t :: rat) / of_int l"]
  have lo: "(of_int n :: rat) - 1 < of_int t / of_int l"
    and hi: "(of_int t :: rat) / of_int l \<le> of_int n"
    by (simp_all add: n_def)
  from lo l have "((of_int n :: rat) - 1) * of_int l < of_int t"
    by (simp add: pos_less_divide_eq)
  then have "(of_int ((n - 1) * l) :: rat) < of_int t" by simp
  then have a: "(n - 1) * l < t" by (simp only: of_int_less_iff)
  from hi l have "(of_int t :: rat) \<le> of_int n * of_int l"
    by (simp add: pos_divide_le_eq)
  then have "(of_int t :: rat) \<le> of_int (n * l)" by simp
  then have b: "t \<le> n * l" by (simp only: of_int_le_iff)
  from a b show ?thesis by (simp add: n_def)
qed

lemma Math_ceil_quotient_pos:
  "1 \<le> l \<Longrightarrow> Math_ceil_quotient t l = Num \<lceil>(of_int t :: rat) / of_int l\<rceil>"
  by (simp add: Math_ceil_quotient_def)

lemma length_filter_map: "length (filter (\<lambda>r. P (f r)) rs) = length (filter P (map f rs))"
  by (induction rs) simp_all

section \<open>Properties of the double arithmetic\<close>

lemma ilog2_bounds:
  assumes "0 < x"
  shows "2 powi (ilog2 x) \<le> x \<and> x < 2 powi (ilog2 x + 1)"
proof -
  obtain a b where ab: "quotient_of x = (a, b)" by (cases "quotient_of x")
  have b: "0 < b" using ab quotient_of_denom_pos by blast
  have x: "x = of_int a / of_int b" using ab by (rule quotient_of_div)
  have a: "0 < a" using assms b x by (simp add: zero_less_divide_iff)
  define la where "la = bitlen a"
  define lb where "lb = bitlen b"
  have la1: "1 \<le> la" and lb1: "1 \<le> lb"
    using a b bitlen_eq_zero_iff [of a] bitlen_eq_zero_iff [of b] bitlen_nonneg [of a] bitlen_nonneg [of b]
    by (auto simp: la_def lb_def)
  from bitlen_bounds [OF a] have a1: "(2::int) ^ nat (la - 1) \<le> a" and a2: "a < 2 ^ nat la"
    by (simp_all add: la_def)
  from bitlen_bounds [OF b] have b1: "(2::int) ^ nat (lb - 1) \<le> b" and b2: "b < 2 ^ nat lb"
    by (simp_all add: lb_def)
  have ra1: "(2::rat) powi (la - 1) \<le> of_int a"
  proof -
    have "(of_int ((2::int) ^ nat (la - 1)) :: rat) \<le> of_int a" using a1 by (simp only: of_int_le_iff)
    then show ?thesis using la1 by (simp add: power_int_def)
  qed
  have ra2: "(of_int a :: rat) < 2 powi la"
  proof -
    have "(of_int a :: rat) < of_int ((2::int) ^ nat la)" using a2 by (simp only: of_int_less_iff)
    then show ?thesis using la1 by (simp add: power_int_def)
  qed
  have rb1: "(2::rat) powi (lb - 1) \<le> of_int b"
  proof -
    have "(of_int ((2::int) ^ nat (lb - 1)) :: rat) \<le> of_int b" using b1 by (simp only: of_int_le_iff)
    then show ?thesis using lb1 by (simp add: power_int_def)
  qed
  have rb2: "(of_int b :: rat) < 2 powi lb"
  proof -
    have "(of_int b :: rat) < of_int ((2::int) ^ nat lb)" using b2 by (simp only: of_int_less_iff)
    then show ?thesis using lb1 by (simp add: power_int_def)
  qed
  define k where "k = la - lb"
  have bpos: "(0::rat) < of_int b" using b by simp
  have p0: "\<And>n. (0::rat) < 2 powi n" by simp
  have lo: "(2::rat) powi (k - 1) < x"
  proof -
    have "(2::rat) powi (k - 1) * of_int b < 2 powi (k - 1) * 2 powi lb"
      using rb2 p0 by (simp add: mult_strict_left_mono)
    also have "\<dots> = 2 powi (la - 1)"
      by (simp add: k_def power_int_add [symmetric])
    also have "\<dots> \<le> of_int a" by (rule ra1)
    finally show ?thesis using bpos by (simp add: x pos_less_divide_eq)
  qed
  have hi: "x < (2::rat) powi (k + 1)"
  proof -
    have "(of_int a :: rat) < 2 powi la" by (rule ra2)
    also have "\<dots> = 2 powi (k + 1) * 2 powi (lb - 1)"
      by (simp add: k_def power_int_add [symmetric])
    also have "\<dots> \<le> 2 powi (k + 1) * of_int b"
      using rb1 p0 by (simp add: mult_left_mono)
    finally show ?thesis using bpos by (simp add: x pos_divide_less_eq)
  qed
  have il: "ilog2 x = (if 2 powi k \<le> x then k else k - 1)"
    by (simp add: ilog2_def ab k_def la_def lb_def Let_def)
  show ?thesis
  proof (cases "(2::rat) powi k \<le> x")
    case True
    with il hi show ?thesis by simp
  next
    case False
    with il lo show ?thesis by (simp add: less_imp_le)
  qed
qed

lemma round_even_error: "\<bar>of_int (round_even m) - m\<bar> \<le> 1 / 2"
proof -
  have "of_int \<lfloor>m\<rfloor> \<le> m" "m < of_int \<lfloor>m\<rfloor> + 1" by linarith+
  then show ?thesis
    by (auto simp: round_even_def Let_def abs_le_iff)
qed

lemma to_double_normal:
  assumes lo: "2 powi (- 1022) \<le> x" and hi: "x * (1 + 1 / 2 ^ 53) < 2 powi 1024"
  shows "\<exists>y. to_double x = Finite y \<and> x * (1 - 1 / 2 ^ 53) \<le> y \<and> y \<le> x * (1 + 1 / 2 ^ 53)"
proof -
  have "(0::rat) < 2 powi (- 1022)" by (rule zero_less_power_int) simp
  from this lo have pos: "0 < x" by (rule less_le_trans)
  define e where "e = ilog2 x"
  from ilog2_bounds [OF pos] have e1: "2 powi e \<le> x" and e2: "x < 2 powi (e + 1)"
    by (simp_all add: e_def)
  have ge: "- 1022 \<le> e"
  proof (rule ccontr)
    assume "\<not> - 1022 \<le> e"
    then have "e + 1 \<le> - 1022" by simp
    then have "(2::rat) powi (e + 1) \<le> 2 powi (- 1022)"
      by (rule power_int_increasing) simp
    with e2 lo show False by simp
  qed
  define q where "q = (2::rat) powi (e - 52)"
  have qpos: "0 < q" by (simp add: q_def)
  have q: "q = 2 powi e / 2 ^ 52"
    by (simp add: q_def power_int_diff)
  define n where "n = round_even (x / q)"
  define y where "y = of_int n * q"
  have "\<bar>of_int n - x / q\<bar> \<le> 1 / 2"
    unfolding n_def by (rule round_even_error)
  then have "\<bar>of_int n - x / q\<bar> * q \<le> 1 / 2 * q"
    using qpos by (simp add: mult_right_mono)
  moreover have "\<bar>of_int n - x / q\<bar> * q = \<bar>y - x\<bar>"
  proof -
    have "\<bar>of_int n - x / q\<bar> * q = \<bar>(of_int n - x / q) * q\<bar>"
      using qpos by (simp add: abs_mult)
    also have "(of_int n - x / q) * q = y - x"
      using qpos by (simp add: y_def left_diff_distrib)
    finally show ?thesis .
  qed
  ultimately have d: "\<bar>y - x\<bar> \<le> q / 2" by simp
  have "q / 2 \<le> x / 2 ^ 53"
    using e1 by (simp add: q field_simps)
  with d have b: "\<bar>y - x\<bar> \<le> x / 2 ^ 53" by simp
  define d where "d = x / 2 ^ 53"
  have xd: "x * (1 - 1 / 2 ^ 53) = x - d" "x * (1 + 1 / 2 ^ 53) = x + d"
    unfolding d_def
    by (simp_all only: right_diff_distrib distrib_left mult_1_right times_divide_eq_right)
  from b have "\<bar>y - x\<bar> \<le> d" by (simp only: d_def)
  then have "x - d \<le> y" and "y \<le> x + d" by linarith+
  then have y1: "x * (1 - 1 / 2 ^ 53) \<le> y" and y2: "y \<le> x * (1 + 1 / 2 ^ 53)"
    by (simp_all only: xd)
  have "0 < x * (1 - 1 / 2 ^ 53)"
    using pos by (intro mult_pos_pos) simp_all
  from this y1 have ypos: "0 < y" by (rule less_le_trans)
  have fin: "\<not> 1024 \<le> ilog2 y"
  proof
    assume "1024 \<le> ilog2 y"
    then have "(2::rat) powi 1024 \<le> 2 powi (ilog2 y)"
      by (rule power_int_increasing) simp
    also have "\<dots> \<le> y" using ilog2_bounds [OF ypos] by simp
    finally show False using y2 hi by simp
  qed
  have "to_double x = Finite y"
    using pos ge fin
    by (simp add: to_double_def e_def [symmetric] max_absorb1 q_def [symmetric]
        n_def [symmetric] y_def [symmetric] Let_def)
  with y1 y2 show ?thesis by blast
qed

lemma double_literals:
  "to_double 0.2 = Finite (3602879701896397 / 18014398509481984)"
  "to_double 0.4 = Finite (3602879701896397 / 9007199254740992)"
  "to_double 0.6 = Finite (5404319552844595 / 9007199254740992)"
  "to_double 0.8 = Finite (3602879701896397 / 4503599627370496)"
  by code_simp+

lemma dmul_fraction:
  assumes t: "2 powi (- 1019) \<le> t" "t < 2 powi 1024"
      and c: "1 / 8 \<le> c" "c \<le> 9 / 10"
  shows "\<exists>y. dmul (Finite t) (Finite c) = Finite y
            \<and> t * (c * (1 - 1 / 2 ^ 53)) \<le> y \<and> y \<le> t * (c * (1 + 1 / 2 ^ 53))"
proof -
  have "(0::rat) < 2 powi (- 1019)" by (rule zero_less_power_int) simp
  from this t(1) have tpos: "0 < t" by (rule less_le_trans)
  have e: "(- 1022 :: int) = - 1019 + - 3" by simp
  have "(2::rat) powi (- 1022) = 2 powi (- 1019) * 2 powi (- 3)"
    by (subst e, rule power_int_add) simp
  also have "\<dots> = 2 powi (- 1019) * (1 / 8)" by simp
  also have "\<dots> \<le> t * c"
    using t(1) c(1) tpos by (intro mult_mono) simp_all
  finally have lo: "2 powi (- 1022) \<le> t * c" .
  have "c * (1 + 1 / 2 ^ 53) \<le> 9 / 10 * (1 + 1 / 2 ^ 53)"
    using c(2) by (intro mult_right_mono) simp_all
  also have "\<dots> < (1::rat)" by simp
  finally have "t * (c * (1 + 1 / 2 ^ 53)) < t * 1"
    using tpos by (intro mult_strict_left_mono)
  then have "t * c * (1 + 1 / 2 ^ 53) < t"
    by (simp only: mult.assoc mult_1_right)
  from this t(2) have hi: "t * c * (1 + 1 / 2 ^ 53) < 2 powi 1024"
    by (rule less_trans)
  from to_double_normal [OF lo hi] show ?thesis
    by (simp only: dmul.simps mult.assoc)
qed

lemma dmul_segment:
  assumes t: "2 powi (- 1019) \<le> t" "t < 2 powi 1024"
      and c: "1 / 8 \<le> c" "c \<le> 9 / 10"
      and f: "f * (1 - 1 / 2 ^ 51) \<le> c * (1 - 1 / 2 ^ 53)"
             "c * (1 + 1 / 2 ^ 53) \<le> f * (1 + 1 / 2 ^ 51)"
  shows "\<exists>y. dmul (Finite t) (Finite c) = Finite y
            \<and> t * (f * (1 - 1 / 2 ^ 51)) \<le> y \<and> y \<le> t * (f * (1 + 1 / 2 ^ 51))"
proof -
  have "(0::rat) < 2 powi (- 1019)" by (rule zero_less_power_int) simp
  from this t(1) have tpos: "0 \<le> t" by simp
  from dmul_fraction [OF t c] obtain y where
    y: "dmul (Finite t) (Finite c) = Finite y"
       "t * (c * (1 - 1 / 2 ^ 53)) \<le> y" "y \<le> t * (c * (1 + 1 / 2 ^ 53))"
    by blast
  have "t * (f * (1 - 1 / 2 ^ 51)) \<le> t * (c * (1 - 1 / 2 ^ 53))"
    using f(1) tpos by (rule mult_left_mono)
  moreover have "t * (c * (1 + 1 / 2 ^ 53)) \<le> t * (f * (1 + 1 / 2 ^ 51))"
    using f(2) tpos by (rule mult_left_mono)
  ultimately have "t * (f * (1 - 1 / 2 ^ 51)) \<le> y" "y \<le> t * (f * (1 + 1 / 2 ^ 51))"
    using y(2,3) by linarith+
  with y(1) show ?thesis by blast
qed

lemma segment_bounds:
  assumes t: "2 powi (- 1019) \<le> t" "t < 2 powi 1024"
  shows "\<exists>b1 b2 b3 b4.
           dmul (Finite t) (to_double 0.2) = Finite b1
         \<and> dmul (Finite t) (to_double 0.4) = Finite b2
         \<and> dmul (Finite t) (to_double 0.6) = Finite b3
         \<and> dmul (Finite t) (to_double 0.8) = Finite b4
         \<and> \<bar>b1 - t * 1 / 5\<bar> \<le> t * 1 / 5 / 2 ^ 51
         \<and> \<bar>b2 - t * 2 / 5\<bar> \<le> t * 2 / 5 / 2 ^ 51
         \<and> \<bar>b3 - t * 3 / 5\<bar> \<le> t * 3 / 5 / 2 ^ 51
         \<and> \<bar>b4 - t * 4 / 5\<bar> \<le> t * 4 / 5 / 2 ^ 51
         \<and> 0 < b1 \<and> b1 < b2 \<and> b2 < b3 \<and> b3 < b4 \<and> b4 < t"
proof -
  have "(0::rat) < 2 powi (- 1019)" by (rule zero_less_power_int) simp
  from this t(1) have tpos: "0 < t" by (rule less_le_trans)
  have "\<exists>y. dmul (Finite t) (Finite (3602879701896397 / 18014398509481984)) = Finite y
            \<and> t * (1 / 5 * (1 - 1 / 2 ^ 51)) \<le> y \<and> y \<le> t * (1 / 5 * (1 + 1 / 2 ^ 51))"
    by (rule dmul_segment [OF t]) simp_all
  then obtain b1 where b1: "dmul (Finite t) (to_double 0.2) = Finite b1"
      "t * (1 / 5 * (1 - 1 / 2 ^ 51)) \<le> b1" "b1 \<le> t * (1 / 5 * (1 + 1 / 2 ^ 51))"
    unfolding double_literals [symmetric] by blast
  have "\<exists>y. dmul (Finite t) (Finite (3602879701896397 / 9007199254740992)) = Finite y
            \<and> t * (2 / 5 * (1 - 1 / 2 ^ 51)) \<le> y \<and> y \<le> t * (2 / 5 * (1 + 1 / 2 ^ 51))"
    by (rule dmul_segment [OF t]) simp_all
  then obtain b2 where b2: "dmul (Finite t) (to_double 0.4) = Finite b2"
      "t * (2 / 5 * (1 - 1 / 2 ^ 51)) \<le> b2" "b2 \<le> t * (2 / 5 * (1 + 1 / 2 ^ 51))"
    unfolding double_literals [symmetric] by blast
  have "\<exists>y. dmul (Finite t) (Finite (5404319552844595 / 9007199254740992)) = Finite y
            \<and> t * (3 / 5 * (1 - 1 / 2 ^ 51)) \<le> y \<and> y \<le> t * (3 / 5 * (1 + 1 / 2 ^ 51))"
    by (rule dmul_segment [OF t]) simp_all
  then obtain b3 where b3: "dmul (Finite t) (to_double 0.6) = Finite b3"
      "t * (3 / 5 * (1 - 1 / 2 ^ 51)) \<le> b3" "b3 \<le> t * (3 / 5 * (1 + 1 / 2 ^ 51))"
    unfolding double_literals [symmetric] by blast
  have "\<exists>y. dmul (Finite t) (Finite (3602879701896397 / 4503599627370496)) = Finite y
            \<and> t * (4 / 5 * (1 - 1 / 2 ^ 51)) \<le> y \<and> y \<le> t * (4 / 5 * (1 + 1 / 2 ^ 51))"
    by (rule dmul_segment [OF t]) simp_all
  then obtain b4 where b4: "dmul (Finite t) (to_double 0.8) = Finite b4"
      "t * (4 / 5 * (1 - 1 / 2 ^ 51)) \<le> b4" "b4 \<le> t * (4 / 5 * (1 + 1 / 2 ^ 51))"
    unfolding double_literals [symmetric] by blast
  define u where "u = t / 5"
  define d where "d = u / 2 ^ 51"
  have u: "t = 5 * u" by (simp add: u_def)
  have dpos: "0 < d" using tpos by (simp add: d_def u_def)
  have ds: "d * 1000 < 5 * u" using tpos by (simp add: d_def u_def)
  have e: "t * (1 / 5 * (1 - 1 / 2 ^ 51)) = u - d" "t * (1 / 5 * (1 + 1 / 2 ^ 51)) = u + d"
          "t * (2 / 5 * (1 - 1 / 2 ^ 51)) = 2 * u - 2 * d"
          "t * (2 / 5 * (1 + 1 / 2 ^ 51)) = 2 * u + 2 * d"
          "t * (3 / 5 * (1 - 1 / 2 ^ 51)) = 3 * u - 3 * d"
          "t * (3 / 5 * (1 + 1 / 2 ^ 51)) = 3 * u + 3 * d"
          "t * (4 / 5 * (1 - 1 / 2 ^ 51)) = 4 * u - 4 * d"
          "t * (4 / 5 * (1 + 1 / 2 ^ 51)) = 4 * u + 4 * d"
    by (simp_all add: d_def u_def algebra_simps)
  have f: "t * 1 / 5 = u" "t * 2 / 5 = 2 * u" "t * 3 / 5 = 3 * u" "t * 4 / 5 = 4 * u"
    by (simp_all add: u_def)
  have g: "u / 2 ^ 51 = d" "2 * u / 2 ^ 51 = 2 * d" "3 * u / 2 ^ 51 = 3 * d"
          "4 * u / 2 ^ 51 = 4 * d"
    by (simp_all add: d_def)
  have bb: "u - d \<le> b1" "b1 \<le> u + d" "2 * u - 2 * d \<le> b2" "b2 \<le> 2 * u + 2 * d"
      "3 * u - 3 * d \<le> b3" "b3 \<le> 3 * u + 3 * d" "4 * u - 4 * d \<le> b4" "b4 \<le> 4 * u + 4 * d"
    using b1(2,3) b2(2,3) b3(2,3) b4(2,3) unfolding e by blast+
  have r: "\<bar>b1 - u\<bar> \<le> d" "\<bar>b2 - 2 * u\<bar> \<le> 2 * d" "\<bar>b3 - 3 * u\<bar> \<le> 3 * d"
       "\<bar>b4 - 4 * u\<bar> \<le> 4 * d" "0 < b1" "b1 < b2" "b2 < b3" "b3 < b4" "b4 < 5 * u"
    using bb ds dpos by linarith+
  from r(9) have "b4 < t" unfolding u .
  with r(1-8) b1(1) b2(1) b3(1) b4(1) show ?thesis
    unfolding f g by blast
qed

lemma round_even_of_int: "round_even (of_int m) = m"
  by (simp add: round_even_def)

lemma to_double_exact:
  assumes n: "0 < n" "n < 2 ^ 53" and e: "- 1074 \<le> e"
      and hi: "of_int n * 2 powi e < (2::rat) powi 1024"
  shows "to_double (of_int n * 2 powi e) = Finite (of_int n * 2 powi e)"
proof -
  define x :: rat where "x = of_int n * 2 powi e"
  have pos: "0 < x" using n(1) by (simp add: x_def)
  have "(of_int n :: rat) < of_int (2 ^ 53)" using n(2) by (simp only: of_int_less_iff)
  then have "(of_int n :: rat) < 2 powi 53" by simp
  then have "x < 2 powi 53 * 2 powi e"
    unfolding x_def by (rule mult_strict_right_mono) simp
  also have "(2::rat) powi 53 * 2 powi e = 2 powi (e + 53)"
    by (simp add: power_int_add)
  finally have xu: "x < 2 powi (e + 53)" .
  have il: "ilog2 x \<le> e + 52"
  proof (rule ccontr)
    assume "\<not> ilog2 x \<le> e + 52"
    then have "e + 53 \<le> ilog2 x" by simp
    then have "(2::rat) powi (e + 53) \<le> 2 powi (ilog2 x)"
      by (rule power_int_increasing) simp
    also have "\<dots> \<le> x" using ilog2_bounds [OF pos] by simp
    finally show False using xu by simp
  qed
  define el where "el = max (ilog2 x) (- 1022)"
  have le: "el \<le> e + 52" using il e by (simp add: el_def)
  define k where "k = nat (e + 52 - el)"
  have "x / 2 powi (el - 52) = of_int n * (2 powi e / 2 powi (el - 52))"
    by (simp add: x_def)
  also have "(2::rat) powi e / 2 powi (el - 52) = 2 powi (e - (el - 52))"
    by (simp add: power_int_diff)
  also have "e - (el - 52) = int k" using le by (simp add: k_def)
  also have "(2::rat) powi int k = 2 ^ k" by simp
  finally have m: "x / 2 powi (el - 52) = of_int (n * 2 ^ k)" by simp
  have y: "of_int (round_even (x / 2 powi (el - 52))) * 2 powi (el - 52) = x"
  proof -
    have "of_int (round_even (x / 2 powi (el - 52))) = x / 2 powi (el - 52)"
      unfolding m round_even_of_int by (rule refl)
    then show ?thesis by simp
  qed
  have fin: "\<not> 1024 \<le> ilog2 x"
  proof
    assume "1024 \<le> ilog2 x"
    then have "(2::rat) powi 1024 \<le> 2 powi (ilog2 x)"
      by (rule power_int_increasing) simp
    also have "\<dots> \<le> x" using ilog2_bounds [OF pos] by simp
    finally show False using hi by (simp add: x_def)
  qed
  have "to_double x = Finite x"
    using pos fin
    by (simp add: to_double_def Let_def el_def [symmetric] y)
  then show ?thesis by (simp only: x_def)
qed

lemma to_double_of_int:
  assumes "0 \<le> n" "n < 2 ^ 53"
  shows "to_double (of_int n) = Finite (of_int n)"
proof (cases "n = 0")
  case True
  then show ?thesis by (simp add: to_double_def)
next
  case False
  with assms have n: "0 < n" by simp
  have "(of_int n :: rat) < of_int (2 ^ 53)" using assms(2) by (simp only: of_int_less_iff)
  then have "(of_int n :: rat) < 2 powi 53" by simp
  also have "(2::rat) powi 53 \<le> 2 powi 1024" by (rule power_int_increasing) simp_all
  finally have "of_int n * 2 powi 0 < (2::rat) powi 1024" by simp
  from to_double_exact [OF n assms(2) _ this] show ?thesis by simp
qed

lemma to_double_quarter:
  assumes "0 \<le> n" "n < 2 ^ 53"
  shows "to_double (of_int n / 4) = Finite (of_int n / 4)"
proof (cases "n = 0")
  case True
  then show ?thesis by (simp add: to_double_def)
next
  case False
  with assms have n: "0 < n" by simp
  have q: "(2::rat) powi (- 2) = 1 / 4" by (simp add: power_int_minus)
  have "(of_int n :: rat) < of_int (2 ^ 53)" using assms(2) by (simp only: of_int_less_iff)
  then have "(of_int n :: rat) < 2 powi 53" by simp
  also have "(2::rat) powi 53 \<le> 2 powi 1024" by (rule power_int_increasing) simp_all
  finally have "(of_int n :: rat) < 2 powi 1024" .
  moreover have "of_int n * 2 powi (- 2) \<le> (of_int n :: rat)"
    using n by (simp add: q)
  ultimately have "of_int n * 2 powi (- 2) < (2::rat) powi 1024" by simp
  from to_double_exact [OF n assms(2) _ this] show ?thesis by (simp add: q)
qed

lemma foldl_dadd_of_int:
  assumes "0 \<le> a" "list_all (\<lambda>t. 0 \<le> t) ts" "a + sum_list ts < 2 ^ 53"
  shows "foldl dadd (Finite (of_int a)) (map (\<lambda>t. Finite (of_int t)) ts)
           = Finite (of_int (a + sum_list ts))"
  using assms
proof (induction ts arbitrary: a)
  case Nil
  then show ?case by simp
next
  case (Cons t ts)
  from Cons.prems have t: "0 \<le> t" and ts: "list_all (\<lambda>t. 0 \<le> t) ts" by simp_all
  have s: "0 \<le> sum_list ts" using ts by (induction ts) simp_all
  have a: "0 \<le> a + t" using Cons.prems(1) t by simp
  have b: "a + t < 2 ^ 53" using Cons.prems(3) s by simp
  have "dadd (Finite (of_int a)) (Finite (of_int t)) = Finite (of_int (a + t))"
    using to_double_of_int [OF a b] by simp
  moreover have "a + t + sum_list ts < 2 ^ 53" using Cons.prems(3) by simp
  ultimately show ?case
    using Cons.IH [OF a ts] by (simp add: add.assoc)
qed

lemma rounded_mean_of_four:
  assumes "length ts = 4" and "list_all (\<lambda>t. 0 \<le> t \<and> t < 2 ^ 50) ts"
  shows "Math_round (ddiv (foldl dadd (Finite 0) (map (\<lambda>t. Finite (of_int t)) ts)) (Finite 4))
           = Finite (of_int \<lfloor>(of_int (sum_list ts) :: rat) / 4 + 1 / 2\<rfloor>)"
proof -
  from assms(1) obtain a b c d where ts: "ts = [a, b, c, d]"
    by (auto simp: length_Suc_conv numeral_eq_Suc)
  from assms(2) have nn: "list_all (\<lambda>t. 0 \<le> t) ts"
    by (simp add: ts)
  from assms(2) have s0: "0 \<le> sum_list ts" and s1: "sum_list ts < 2 ^ 53"
    by (simp_all add: ts)
  have "foldl dadd (Finite (of_int 0)) (map (\<lambda>t. Finite (of_int t)) ts)
          = Finite (of_int (0 + sum_list ts))"
    by (rule foldl_dadd_of_int) (use nn s1 in simp_all)
  then have "foldl dadd (Finite 0) (map (\<lambda>t. Finite (of_int t)) ts)
          = Finite (of_int (sum_list ts))" by simp
  then show ?thesis
    using to_double_quarter [OF s0 s1] by simp
qed

section \<open>Quiz update and the question count\<close>

text \<open>
  C1, as stated, fails: a quiz stored with one question and \<open>totalQuestions = 1\<close> is
  updated with two question ids and no \<open>totalQuestions\<close>. The stored question ids are
  the two new ones and the stored \<open>totalQuestions\<close> is still 1.
\<close>

theorem updateQuiz_questionIds_alone_keeps_totalQuestions:
  "map questionIds (quizzes (fst (updateQuiz no_validators 2000 sample_store ''q1''
        (no_update\<lparr>u_questionIds := Some [''qa'', ''qb'']\<rparr>)))) = [[''qa'', ''qb'']]
   \<and> map totalQuestions (quizzes (fst (updateQuiz no_validators 2000 sample_store ''q1''
        (no_update\<lparr>u_questionIds := Some [''qa'', ''qb'']\<rparr>)))) = [1]
   \<and> (1::int) \<noteq> int (length [''qa'', ''qb''])"
  by (simp add: updateQuiz_def recount_def no_update_def no_validators_def sample_store_def
      sample_quiz_def apply_update_def)

text \<open>
  C1, amended: for every successful quiz update whose update document carries both
  \<open>questionIds\<close> and a non-zero \<open>totalQuestions\<close>, the quiz stored under the id after the
  call (which is the document returned) has the new question ids and a \<open>totalQuestions\<close>
  equal to their number, whatever value was passed.
\<close>

theorem updateQuiz_recounts_totalQuestions:
  assumes "u_questionIds updateData = Some ids"
      and "u_totalQuestions updateData = Some n"
      and "n \<noteq> 0"
      and "updateQuiz validators now st qid updateData = (st', Inr r)"
  shows "findById (quizzes st') qid = Some (data r)
       \<and> questionIds (data r) = ids
       \<and> totalQuestions (data r) = int (length ids)"
proof -
  define u where "u = (recount updateData)\<lparr>u_updatedAt := Some now\<rparr>"
  have uq: "u_questionIds u = Some ids" and ut: "u_totalQuestions u = Some (int (length ids))"
    using assms(1-3) by (auto simp: u_def recount_def)
  from assms(4) obtain qs' q' where
    upd: "findByIdAndUpdate (quizzes st) qid u = Some (qs', q')"
    and st': "st' = st\<lparr>quizzes := qs'\<rparr>" and r: "data r = q'"
    by (auto simp: updateQuiz_def Let_def u_def split: if_splits option.splits)
  from findByIdAndUpdate_Some [OF upd] obtain q where
    found: "findById qs' qid = Some q'" and q': "q' = apply_update u q"
    by blast
  show ?thesis
    using found st' r q' uq ut by (simp add: apply_update_def)
qed

theorem updateQuiz_recounts_totalQuestions_witness:
  "updateQuiz no_validators 2000 sample_store ''q1''
      (no_update\<lparr>u_questionIds := Some [''qa'', ''qb''], u_totalQuestions := Some 7\<rparr>)
    = (sample_store\<lparr>quizzes := [sample_quiz\<lparr>questionIds := [''qa'', ''qb''],
                                            totalQuestions := 2, updatedAt := 2000\<rparr>]\<rparr>,
       Inr \<lparr>statusCode = 200,
            data = sample_quiz\<lparr>questionIds := [''qa'', ''qb''], totalQuestions := 2,
                                updatedAt := 2000\<rparr>,
            message = Some ''Quiz updated successfully''\<rparr>)
   \<and> totalQuestions (sample_quiz\<lparr>questionIds := [''qa'', ''qb''], totalQuestions := 2,
                                 updatedAt := 2000\<rparr>) = int (length [''qa'', ''qb''])"
proof -
  have run: "updateQuiz no_validators 2000 sample_store ''q1''
      (no_update\<lparr>u_questionIds := Some [''qa'', ''qb''], u_totalQuestions := Some 7\<rparr>)
    = (sample_store\<lparr>quizzes := [sample_quiz\<lparr>questionIds := [''qa'', ''qb''],
                                            totalQuestions := 2, updatedAt := 2000\<rparr>]\<rparr>,
       Inr \<lparr>statusCode = 200,
            data = sample_quiz\<lparr>questionIds := [''qa'', ''qb''], totalQuestions := 2,
                                updatedAt := 2000\<rparr>,
            message = Some ''Quiz updated successfully''\<rparr>)"
    by (simp add: updateQuiz_def recount_def no_update_def no_validators_def sample_store_def
        sample_quiz_def apply_update_def)
  have "u_questionIds (no_update\<lparr>u_questionIds := Some [''qa'', ''qb''],
                                  u_totalQuestions := Some 7\<rparr>) = Some [''qa'', ''qb'']"
    and "u_totalQuestions (no_update\<lparr>u_questionIds := Some [''qa'', ''qb''],
                                      u_totalQuestions := Some 7\<rparr>) = Some 7"
    and "(7::int) \<noteq> 0"
    by simp_all
  from updateQuiz_recounts_totalQuestions [OF this run] run show ?thesis by simp
qed

section \<open>Quiz deletion\<close>

text \<open>
  C4: deleting a quiz that is stored (ids being unique in the collection). With no
  result referring to the quiz, the call reports \<open>Quiz deleted successfully\<close>, no stored
  quiz has the id any more and \<open>getQuizById\<close> fails with the error 404. With a result
  referring to it, the call reports the deactivation, and \<open>getQuizById\<close> returns the
  quiz as it was but with \<open>isActive = false\<close>. The two messages differ.
\<close>

theorem deleteQuiz_hard_or_soft:
  assumes "findById (quizzes st) qid = Some q"
      and "distinct (map quiz_id (quizzes st))"
  shows "(find_results (quizResults st) qid = [] \<longrightarrow>
            snd (deleteQuiz st qid) =
              Inr \<lparr>statusCode = 200, data = None, message = Some ''Quiz deleted successfully''\<rparr>
            \<and> qid \<notin> quiz_id ` set (quizzes (fst (deleteQuiz st qid)))
            \<and> getQuizById (fst (deleteQuiz st qid)) qid b = Inl (ApiError 404 ''Quiz not found'' []))
       \<and> (find_results (quizResults st) qid \<noteq> [] \<longrightarrow>
            snd (deleteQuiz st qid) =
              Inr \<lparr>statusCode = 200, data = None,
                   message = Some ''Quiz deactivated successfully (has existing results)''\<rparr>
            \<and> getQuizById (fst (deleteQuiz st qid)) qid b =
                Inr \<lparr>statusCode = 200, data = q\<lparr>isActive := False\<rparr>,
                     message = Some ''Quiz retrieved successfully''\<rparr>)
       \<and> ''Quiz deleted successfully'' \<noteq> ''Quiz deactivated successfully (has existing results)''"
proof -
  have id: "quiz_id q = qid" using assms(1) by (rule findById_quiz_id)
  have gone: "qid \<notin> quiz_id ` set (findByIdAndDelete (quizzes st) qid)"
    using assms(2) by (rule findByIdAndDelete_removes)
  then have hard: "findById (findByIdAndDelete (quizzes st) qid) qid = None"
    by (rule findById_absent)
  have "findById (save (quizzes st) (q\<lparr>isActive := False\<rparr>)) (quiz_id (q\<lparr>isActive := False\<rparr>))
          = Some (q\<lparr>isActive := False\<rparr>)"
    by (rule findById_save) (simp add: id assms(1))
  then have soft:
    "findById (save (quizzes st) (q\<lparr>isActive := False\<rparr>)) qid = Some (q\<lparr>isActive := False\<rparr>)"
    by (simp add: id)
  show ?thesis
    using assms(1) gone hard soft
    by (simp add: deleteQuiz_def getQuizById_def exists_result_def)
qed

theorem deleteQuiz_hard_or_soft_witness:
  "findById (quizzes fresh_store) ''q1'' = Some sample_quiz
   \<and> distinct (map quiz_id (quizzes fresh_store))
   \<and> find_results (quizResults fresh_store) ''q1'' = []
   \<and> getQuizById (fst (deleteQuiz fresh_store ''q1'')) ''q1'' False
       = Inl (ApiError 404 ''Quiz not found'' [])
   \<and> findById (quizzes sample_store) ''q1'' = Some sample_quiz
   \<and> distinct (map quiz_id (quizzes sample_store))
   \<and> find_results (quizResults sample_store) ''q1'' \<noteq> []
   \<and> getQuizById (fst (deleteQuiz sample_store ''q1'')) ''q1'' False
       = Inr \<lparr>statusCode = 200, data = sample_quiz\<lparr>isActive := False\<rparr>,
              message = Some ''Quiz retrieved successfully''\<rparr>"
proof -
  have f1: "findById (quizzes fresh_store) ''q1'' = Some sample_quiz"
    by (simp add: fresh_store_def sample_quiz_def)
  have d1: "distinct (map quiz_id (quizzes fresh_store))"
    by (simp add: fresh_store_def)
  have e1: "find_results (quizResults fresh_store) ''q1'' = []"
    by (simp add: fresh_store_def find_results_def)
  have f2: "findById (quizzes sample_store) ''q1'' = Some sample_quiz"
    by (simp add: sample_store_def sample_quiz_def)
  have d2: "distinct (map quiz_id (quizzes sample_store))"
    by (simp add: sample_store_def)
  have e2: "find_results (quizResults sample_store) ''q1'' \<noteq> []"
    by (simp add: sample_store_def find_results_def sample_results_def sample_result_def)
  show ?thesis
    using deleteQuiz_hard_or_soft [OF f1 d1, of False] deleteQuiz_hard_or_soft [OF f2 d2, of False]
      f1 d1 e1 f2 d2 e2
    by simp
qed

section \<open>Quiz analytics\<close>

text \<open>
  C10: for a quiz that no result refers to, \<open>updateQuizAnalytics\<close> returns without a
  value and the store, the quiz's analytics included, is what it was.
\<close>

theorem updateQuizAnalytics_no_results:
  assumes "find_results (quizResults st) qid = []"
  shows "updateQuizAnalytics st qid = (st, Inr None)"
  using assms by (simp add: updateQuizAnalytics_def)

theorem updateQuizAnalytics_no_results_witness:
  "find_results (quizResults fresh_store) ''q1'' = []
   \<and> updateQuizAnalytics fresh_store ''q1'' = (fresh_store, Inr None)
   \<and> map quiz_analytics (quizzes (fst (updateQuizAnalytics fresh_store ''q1'')))
       = [\<lparr>totalAttempts = 0, averageScore = Finite 0, averageTime = Finite 0,
          completionRate = Finite 0\<rparr>]"
proof -
  have e: "find_results (quizResults fresh_store) ''q1'' = []"
    by (simp add: fresh_store_def find_results_def)
  have "map quiz_analytics (quizzes fresh_store)
       = [\<lparr>totalAttempts = 0, averageScore = Finite 0, averageTime = Finite 0,
          completionRate = Finite 0\<rparr>]"
    by (simp add: fresh_store_def sample_quiz_def)
  with updateQuizAnalytics_no_results [OF e] e show ?thesis by simp
qed

lemma findByIdAndUpdate_absent:
  "findById qs i = None \<Longrightarrow> findByIdAndUpdate qs i u = None"
  by (induction qs) (auto split: if_splits)

lemma foldl_dadd_map:
  "foldl (\<lambda>sum r. dadd sum (f r)) a rs = foldl dadd a (map f rs)"
  by (induction rs arbitrary: a) simp_all

lemma mean_of_10_15_18_20:
  "Math_round (ddiv (foldl dadd (Finite 0) [Finite 10, Finite 15, Finite 18, Finite 20])
                    (Finite 4)) = Finite 16"
  by code_simp

lemma rate_of_4_in_4:
  "Math_round (dmul (ddiv (Finite 4) (Finite 4)) (Finite 100)) = Finite 100"
  by code_simp

lemma rate_of_23_in_40:
  "Math_round (dmul (ddiv (Finite 23) (Finite 40)) (Finite 100)) = Finite 57"
  by code_simp

text \<open>
  C6: for a quiz whose results score 10, 15, 18 and 20, \<open>updateQuizAnalytics\<close> answers
  four attempts, the average score 16, the completion rate 100 and as average time the
  rounded mean of the four \<open>timeTaken\<close> values, the mean being the sum accumulated from
  0 in double arithmetic, divided by 4; for whole durations below \<open>2\<^sup>5\<^sup>0\<close> this is the
  exact mean, rounded to the nearest integer, a half upwards. A stored quiz holds these
  analytics after the call, and a store without the quiz is left as it is. The quiz's
  total points (20 in the sample quiz) play no part in these numbers.
\<close>

theorem updateQuizAnalytics_scores_10_15_18_20:
  assumes "map score (find_results (quizResults st) qid)
             = [Finite 10, Finite 15, Finite 18, Finite 20]"
  shows "(\<exists>st'. updateQuizAnalytics st qid =
           (st', Inr (Some \<lparr>statusCode = 200,
                data = \<lparr>totalAttempts = 4, averageScore = Finite 16,
                        averageTime =
                          Math_round (ddiv (foldl dadd (Finite 0)
                              (map timeTaken (find_results (quizResults st) qid))) (Finite 4)),
                        completionRate = Finite 100\<rparr>,
                message = Some ''Quiz analytics updated successfully''\<rparr>))
         \<and> (findById (quizzes st) qid \<noteq> None \<longrightarrow>
              map_option quiz_analytics (findById (quizzes st') qid) =
                Some \<lparr>totalAttempts = 4, averageScore = Finite 16,
                   averageTime =
                     Math_round (ddiv (foldl dadd (Finite 0)
                         (map timeTaken (find_results (quizResults st) qid))) (Finite 4)),
                   completionRate = Finite 100\<rparr>)
         \<and> (findById (quizzes st) qid = None \<longrightarrow> st' = st))
       \<and> (\<forall>ts. map timeTaken (find_results (quizResults st) qid)
                   = map (\<lambda>t. Finite (of_int t)) ts
                 \<and> list_all (\<lambda>t. 0 \<le> t \<and> t < 2 ^ 50) ts \<longrightarrow>
              Math_round (ddiv (foldl dadd (Finite 0)
                  (map timeTaken (find_results (quizResults st) qid))) (Finite 4))
                = Finite (of_int \<lfloor>(of_int (sum_list ts) :: rat) / 4 + 1 / 2\<rfloor>))"
proof -
  define rs where "rs = find_results (quizResults st) qid"
  have sc: "map score rs = [Finite 10, Finite 15, Finite 18, Finite 20]"
    using assms(1) by (simp add: rs_def)
  have len: "length rs = 4" using arg_cong [OF sc, of length] by simp
  have ne: "rs \<noteq> []" using len by auto
  have avg: "Math_round (ddiv (foldl dadd (Finite 0) (map score rs)) (Finite 4)) = Finite 16"
    unfolding sc by (rule mean_of_10_15_18_20)
  have pos: "length (filter (\<lambda>r. dless (Finite 0) (score r)) rs) = 4"
    using length_filter_map [of "\<lambda>x. dless (Finite 0) x" score rs] by (simp add: sc)
  have n4: "of_nat 4 = (4::rat)" by simp
  define a where "a = \<lparr>totalAttempts = 4, averageScore = Finite 16,
      averageTime = Math_round (ddiv (foldl dadd (Finite 0) (map timeTaken rs)) (Finite 4)),
      completionRate = Finite 100\<rparr>"
  define u where "u = no_update\<lparr>u_analytics := Some a\<rparr>"
  define st' where "st' = (case findByIdAndUpdate (quizzes st) qid u of
                 None \<Rightarrow> st | Some (qs', q') \<Rightarrow> st\<lparr>quizzes := qs'\<rparr>)"
  have run: "updateQuizAnalytics st qid =
      (st', Inr (Some \<lparr>statusCode = 200, data = a,
                  message = Some ''Quiz analytics updated successfully''\<rparr>))"
    unfolding updateQuizAnalytics_def Let_def rs_def [symmetric]
      foldl_dadd_map [of score] foldl_dadd_map [of timeTaken] len pos n4
      avg rate_of_4_in_4 a_def st'_def u_def
    by simp
  have stored: "map_option quiz_analytics (findById (quizzes st') qid) = Some a"
    if "findById (quizzes st) qid \<noteq> None"
  proof -
    from that obtain q where q: "findById (quizzes st) qid = Some q" by blast
    from findByIdAndUpdate_found [OF q] obtain qs' where
      upd: "findByIdAndUpdate (quizzes st) qid u = Some (qs', apply_update u q)" by blast
    from findByIdAndUpdate_Some [OF upd]
    have "findById qs' qid = Some (apply_update u q)" by simp
    with upd show ?thesis
      by (simp add: st'_def apply_update_def u_def no_update_def)
  qed
  have same: "st' = st" if "findById (quizzes st) qid = None"
    using findByIdAndUpdate_absent [OF that, of u] by (simp add: st'_def)
  from run stored same have
    "updateQuizAnalytics st qid =
       (st', Inr (Some \<lparr>statusCode = 200, data = a,
                  message = Some ''Quiz analytics updated successfully''\<rparr>))
     \<and> (findById (quizzes st) qid \<noteq> None \<longrightarrow>
          map_option quiz_analytics (findById (quizzes st') qid) = Some a)
     \<and> (findById (quizzes st) qid = None \<longrightarrow> st' = st)"
    by (intro conjI impI)
  then have first: "\<exists>st'. updateQuizAnalytics st qid =
       (st', Inr (Some \<lparr>statusCode = 200, data = a,
                  message = Some ''Quiz analytics updated successfully''\<rparr>))
     \<and> (findById (quizzes st) qid \<noteq> None \<longrightarrow>
          map_option quiz_analytics (findById (quizzes st') qid) = Some a)
     \<and> (findById (quizzes st) qid = None \<longrightarrow> st' = st)"
    by (rule exI)
  have mean: "Math_round (ddiv (foldl dadd (Finite 0) (map timeTaken rs)) (Finite 4))
                = Finite (of_int \<lfloor>(of_int (sum_list ts) :: rat) / 4 + 1 / 2\<rfloor>)"
    if "map timeTaken rs = map (\<lambda>t. Finite (of_int t)) ts"
      and "list_all (\<lambda>t. 0 \<le> t \<and> t < 2 ^ 50) ts" for ts
  proof -
    have "length ts = 4" using map_eq_imp_length_eq [OF that(1)] len by simp
    from rounded_mean_of_four [OF this that(2)] show ?thesis
      by (simp only: that(1))
  qed
  from first mean show ?thesis
    unfolding a_def rs_def by blast
qed

theorem updateQuizAnalytics_scores_10_15_18_20_witness:
  "map score (find_results (quizResults sample_store) ''q1'')
     = [Finite 10, Finite 15, Finite 18, Finite 20]
   \<and> findById (quizzes sample_store) ''q1'' = Some sample_quiz
   \<and> totalPoints sample_quiz = Finite 20
   \<and> snd (updateQuizAnalytics sample_store ''q1'') =
        Inr (Some \<lparr>statusCode = 200,
               data = \<lparr>totalAttempts = 4, averageScore = Finite 16, averageTime = Finite 231,
                       completionRate = Finite 100\<rparr>,
               message = Some ''Quiz analytics updated successfully''\<rparr>)
   \<and> map_option quiz_analytics
        (findById (quizzes (fst (updateQuizAnalytics sample_store ''q1''))) ''q1'') =
        Some \<lparr>totalAttempts = 4, averageScore = Finite 16, averageTime = Finite 231,
              completionRate = Finite 100\<rparr>
   \<and> map timeTaken (find_results (quizResults sample_store) ''q1'')
       = map (\<lambda>t. Finite (of_int t)) [300, 240, 200, 185]
   \<and> Finite 231 = Finite (of_int \<lfloor>(of_int (sum_list [300, 240, 200, 185]) :: rat) / 4 + 1 / 2\<rfloor>)"
proof -
  have d: "map timeTaken (find_results (quizResults sample_store) ''q1'')
       = map (\<lambda>t. Finite (of_int t)) [300, 240, 200, 185]"
    by code_simp
  have w: "list_all (\<lambda>t. 0 \<le> t \<and> t < 2 ^ 50) [300, 240, 200, 185 :: int]"
    by simp
  have s: "map score (find_results (quizResults sample_store) ''q1'')
             = [Finite 10, Finite 15, Finite 18, Finite 20]"
    by code_simp
  have f: "findById (quizzes sample_store) ''q1'' = Some sample_quiz"
    by (simp add: sample_store_def sample_quiz_def)
  have p: "totalPoints sample_quiz = Finite 20"
    by (simp add: sample_quiz_def)
  have t: "Math_round (ddiv (foldl dadd (Finite 0)
             (map timeTaken (find_results (quizResults sample_store) ''q1''))) (Finite 4))
      = Finite 231"
    by code_simp
  from updateQuizAnalytics_scores_10_15_18_20 [OF s]
  obtain st' where
    r: "updateQuizAnalytics sample_store ''q1'' =
           (st', Inr (Some \<lparr>statusCode = 200,
                data = \<lparr>totalAttempts = 4, averageScore = Finite 16,
                        averageTime =
                          Math_round (ddiv (foldl dadd (Finite 0)
                              (map timeTaken (find_results (quizResults sample_store) ''q1'')))
                            (Finite 4)),
                        completionRate = Finite 100\<rparr>,
                message = Some ''Quiz analytics updated successfully''\<rparr>))"
    and k: "findById (quizzes sample_store) ''q1'' \<noteq> None \<longrightarrow>
              map_option quiz_analytics (findById (quizzes st') ''q1'') =
                Some \<lparr>totalAttempts = 4, averageScore = Finite 16,
                   averageTime =
                     Math_round (ddiv (foldl dadd (Finite 0)
                         (map timeTaken (find_results (quizResults sample_store) ''q1'')))
                       (Finite 4)),
                   completionRate = Finite 100\<rparr>"
    and m: "\<forall>ts. map timeTaken (find_results (quizResults sample_store) ''q1'')
                   = map (\<lambda>t. Finite (of_int t)) ts
                 \<and> list_all (\<lambda>t. 0 \<le> t \<and> t < 2 ^ 50) ts \<longrightarrow>
              Math_round (ddiv (foldl dadd (Finite 0)
                  (map timeTaken (find_results (quizResults sample_store) ''q1''))) (Finite 4))
                = Finite (of_int \<lfloor>(of_int (sum_list ts) :: rat) / 4 + 1 / 2\<rfloor>)"
    by blast
  from m d w have
    "Math_round (ddiv (foldl dadd (Finite 0)
        (map timeTaken (find_results (quizResults sample_store) ''q1''))) (Finite 4))
      = Finite (of_int \<lfloor>(of_int (sum_list [300, 240, 200, 185]) :: rat) / 4 + 1 / 2\<rfloor>)"
    by blast
  then have e: "Finite 231
      = Finite (of_int \<lfloor>(of_int (sum_list [300, 240, 200, 185]) :: rat) / 4 + 1 / 2\<rfloor>)"
    by (simp only: t)
  from r k s f p have
    "map score (find_results (quizResults sample_store) ''q1'')
       = [Finite 10, Finite 15, Finite 18, Finite 20]
     \<and> findById (quizzes sample_store) ''q1'' = Some sample_quiz
     \<and> totalPoints sample_quiz = Finite 20
     \<and> snd (updateQuizAnalytics sample_store ''q1'') =
        Inr (Some \<lparr>statusCode = 200,
               data = \<lparr>totalAttempts = 4, averageScore = Finite 16, averageTime = Finite 231,
                       completionRate = Finite 100\<rparr>,
               message = Some ''Quiz analytics updated successfully''\<rparr>)
     \<and> map_option quiz_analytics
        (findById (quizzes (fst (updateQuizAnalytics sample_store ''q1''))) ''q1'') =
        Some \<lparr>totalAttempts = 4, averageScore = Finite 16, averageTime = Finite 231,
              completionRate = Finite 100\<rparr>"
    by (simp add: t)
  with d e show ?thesis by blast
qed

text \<open>
  The additions are those of doubles: the durations 0.1, 0.2, 1.7 and 0 add up to the
  double 2, whose quarter rounds to 1, where the exact sum of the four doubles is below
  2. And 23 completed results in 40 give the rate 57, the product
  \<open>0.575 * 100\<close> being the double below 57.5.
\<close>

lemma updateQuizAnalytics_fractional_durations:
  "map timeTaken fractional_results = [to_double 0.1, to_double 0.2, to_double 1.7, Finite 0]
   \<and> foldl dadd (Finite 0) (map timeTaken fractional_results) = Finite 2
   \<and> snd (updateQuizAnalytics \<lparr>quizzes = [sample_quiz], quizResults = fractional_results\<rparr> ''q1'')
       = Inr (Some \<lparr>statusCode = 200,
               data = \<lparr>totalAttempts = 4, averageScore = Finite 16, averageTime = Finite 1,
                       completionRate = Finite 100\<rparr>,
               message = Some ''Quiz analytics updated successfully''\<rparr>)"
  by code_simp

section \<open>Score distribution\<close>

lemma dless_irrefl: "\<not> dless x x"
  by (cases x) simp_all

lemma dle_refl_iff: "dle x x = (x \<noteq> NotANumber)"
  by (cases x) simp_all

lemma dless_not_NaN: "dless x y \<Longrightarrow> y \<noteq> NotANumber"
  by (cases x; cases y) simp_all

lemma length_ranges: "length (ranges tp) = 5"
  by (simp add: ranges_def)

lemma count_calculateScoreDistribution:
  "i < 5 \<Longrightarrow>
   count (calculateScoreDistribution rs tp ! i) =
     int (length (filter (\<lambda>r. dless (range_min (ranges tp ! i)) (score r)
                            \<and> dle (score r) (range_max (ranges tp ! i))) rs))"
  by (simp add: calculateScoreDistribution_def length_ranges)

lemma range_min_Suc: "i < 4 \<Longrightarrow> range_min (ranges tp ! Suc i) = range_max (ranges tp ! i)"
proof -
  assume "i < 4"
  then consider "i = 0" | "i = 1" | "i = 2" | "i = 3" by linarith
  then show ?thesis by cases (simp_all add: ranges_def)
qed

lemma ranges_Finite:
  assumes "dmul (Finite t) (to_double 0.2) = Finite b1"
      and "dmul (Finite t) (to_double 0.4) = Finite b2"
      and "dmul (Finite t) (to_double 0.6) = Finite b3"
      and "dmul (Finite t) (to_double 0.8) = Finite b4"
  shows "ranges (Finite t) =
     [\<lparr>label = ''0-20%'', range_min = Finite 0, range_max = Finite b1\<rparr>,
      \<lparr>label = ''21-40%'', range_min = Finite b1, range_max = Finite b2\<rparr>,
      \<lparr>label = ''41-60%'', range_min = Finite b2, range_max = Finite b3\<rparr>,
      \<lparr>label = ''61-80%'', range_min = Finite b3, range_max = Finite b4\<rparr>,
      \<lparr>label = ''81-100%'', range_min = Finite b4, range_max = Finite t\<rparr>]"
  unfolding ranges_def assms by (rule refl)

lemma boundary_counts:
  assumes c: "0 < b1" "b1 < b2" "b2 < b3" "b3 < b4" "b4 < t"
      and R: "ranges (Finite t) =
     [\<lparr>label = ''0-20%'', range_min = Finite 0, range_max = Finite b1\<rparr>,
      \<lparr>label = ''21-40%'', range_min = Finite b1, range_max = Finite b2\<rparr>,
      \<lparr>label = ''41-60%'', range_min = Finite b2, range_max = Finite b3\<rparr>,
      \<lparr>label = ''61-80%'', range_min = Finite b3, range_max = Finite b4\<rparr>,
      \<lparr>label = ''81-100%'', range_min = Finite b4, range_max = Finite t\<rparr>]"
      and i: "i < 4" and s: "score r = range_max (ranges (Finite t) ! i)"
  shows "map count (calculateScoreDistribution (rs1 @ r # rs2) (Finite t)) =
           (map count (calculateScoreDistribution (rs1 @ rs2) (Finite t)))
             [i := count (calculateScoreDistribution (rs1 @ rs2) (Finite t) ! i) + 1]"
proof -
  from i consider "i = 0" | "i = 1" | "i = 2" | "i = 3" by linarith
  then show ?thesis
  proof cases
    case 1
    with s have "score r = Finite b1" by (simp add: R)
    with c 1 show ?thesis by (simp add: calculateScoreDistribution_def R)
  next
    case 2
    with s have "score r = Finite b2" by (simp add: R)
    with c 2 show ?thesis by (simp add: calculateScoreDistribution_def R)
  next
    case 3
    with s have "score r = Finite b3" by (simp add: R)
    with c 3 show ?thesis by (simp add: calculateScoreDistribution_def R)
  next
    case 4
    with s have "score r = Finite b4" by (simp add: R)
    with c 4 show ?thesis by (simp add: calculateScoreDistribution_def R)
  qed
qed

lemma boundary_segments:
  assumes t: "2 powi (- 1019) \<le> t" "t < 2 powi 1024" and i: "i < 4"
  shows "(\<exists>b. range_max (ranges (Finite t) ! i) = Finite b
              \<and> \<bar>b - t * of_nat (Suc i) / 5\<bar> \<le> t * of_nat (Suc i) / 5 / 2 ^ 51)
       \<and> dless (range_min (ranges (Finite t) ! i)) (range_max (ranges (Finite t) ! i))
       \<and> (\<forall>r rs1 rs2. score r = range_max (ranges (Finite t) ! i) \<longrightarrow>
            map count (calculateScoreDistribution (rs1 @ r # rs2) (Finite t)) =
              (map count (calculateScoreDistribution (rs1 @ rs2) (Finite t)))
                [i := count (calculateScoreDistribution (rs1 @ rs2) (Finite t) ! i) + 1])"
proof -
  from segment_bounds [OF t] obtain b1 b2 b3 b4 where
    b: "dmul (Finite t) (to_double 0.2) = Finite b1" "dmul (Finite t) (to_double 0.4) = Finite b2"
       "dmul (Finite t) (to_double 0.6) = Finite b3" "dmul (Finite t) (to_double 0.8) = Finite b4"
    and e: "\<bar>b1 - t * 1 / 5\<bar> \<le> t * 1 / 5 / 2 ^ 51" "\<bar>b2 - t * 2 / 5\<bar> \<le> t * 2 / 5 / 2 ^ 51"
       "\<bar>b3 - t * 3 / 5\<bar> \<le> t * 3 / 5 / 2 ^ 51" "\<bar>b4 - t * 4 / 5\<bar> \<le> t * 4 / 5 / 2 ^ 51"
    and c: "0 < b1" "b1 < b2" "b2 < b3" "b3 < b4" "b4 < t"
    by blast
  note R = ranges_Finite [OF b]
  have counts: "\<forall>r rs1 rs2. score r = range_max (ranges (Finite t) ! i) \<longrightarrow>
            map count (calculateScoreDistribution (rs1 @ r # rs2) (Finite t)) =
              (map count (calculateScoreDistribution (rs1 @ rs2) (Finite t)))
                [i := count (calculateScoreDistribution (rs1 @ rs2) (Finite t) ! i) + 1]"
    using boundary_counts [OF c R i] by blast
  from i consider "i = 0" | "i = 1" | "i = 2" | "i = 3" by linarith
  then have "(\<exists>b. range_max (ranges (Finite t) ! i) = Finite b
              \<and> \<bar>b - t * of_nat (Suc i) / 5\<bar> \<le> t * of_nat (Suc i) / 5 / 2 ^ 51)
       \<and> dless (range_min (ranges (Finite t) ! i)) (range_max (ranges (Finite t) ! i))"
  proof cases
    case 1
    have "of_nat (Suc 0) = (1::rat)" by simp
    with e(1) c 1 show ?thesis by (simp add: R)
  next
    case 2
    have "of_nat (Suc 1) = (2::rat)" by simp
    with e(2) c 2 show ?thesis by (simp add: R)
  next
    case 3
    have "of_nat (Suc 2) = (3::rat)" by simp
    with e(3) c 3 show ?thesis by (simp add: R)
  next
    case 4
    have "of_nat (Suc 3) = (4::rat)" by simp
    with e(4) c 4 show ?thesis by (simp add: R)
  qed
  with counts show ?thesis by blast
qed

text \<open>
  C5, as stated, fails: with total points 0 the four inner bounds, the products of the
  total points with 0.2, 0.4, 0.6 and 0.8, are all 0, and a result with score 0, which
  is \<open>totalPoints * 0.2\<close>, passes the test \<open>min < score \<le> max\<close> of no bucket: it is
  counted in none, the lower one included.
\<close>

theorem boundary_score_zero_total_in_no_bucket:
  "score (sample_result ''r0'' 0 100 6000) = dmul (Finite 0) (to_double 0.2)
   \<and> map (\<lambda>g. (range_min g, range_max g)) (ranges (Finite 0)) =
       [(Finite 0, Finite 0), (Finite 0, Finite 0), (Finite 0, Finite 0),
        (Finite 0, Finite 0), (Finite 0, Finite 0)]
   \<and> map count (calculateScoreDistribution [sample_result ''r0'' 0 100 6000] (Finite 0))
       = [0, 0, 0, 0, 0]"
  by code_simp

text \<open>
  C5, amended: the five buckets test \<open>min < score \<le> max\<close> on the bounds
  \<open>0\<close>, \<open>totalPoints * 0.2\<close>, \<open>totalPoints * 0.4\<close>, \<open>totalPoints * 0.6\<close>,
  \<open>totalPoints * 0.8\<close> and \<open>totalPoints\<close>, the products being those of double
  arithmetic. A result whose score is exactly the upper bound of one of the first four
  buckets never adds to the count of the next, the upper, bucket; it adds one to the
  count of its own, the lower, bucket exactly when the lower bound of that bucket is
  below its upper bound. For total points from \<open>2\<^sup>-\<^sup>1\<^sup>0\<^sup>1\<^sup>9\<close> up to the largest double
  this is so: the bound is the fraction \<open>(i + 1) / 5\<close> of the total points up to a
  relative error of \<open>2\<^sup>-\<^sup>5\<^sup>1\<close>, the result is counted in the lower bucket wherever it
  stands among the results, and the count of every other bucket is as it is without it.
\<close>

theorem boundary_score_in_lower_bucket:
  assumes "i < 4" and "score r = range_max (ranges tp ! i)"
  shows "map (\<lambda>g. (range_min g, range_max g)) (ranges tp) =
           [(Finite 0, dmul tp (to_double 0.2)),
            (dmul tp (to_double 0.2), dmul tp (to_double 0.4)),
            (dmul tp (to_double 0.4), dmul tp (to_double 0.6)),
            (dmul tp (to_double 0.6), dmul tp (to_double 0.8)),
            (dmul tp (to_double 0.8), tp)]
       \<and> map count (calculateScoreDistribution rs tp) =
           map (\<lambda>g. int (length (filter (\<lambda>r. dless (range_min g) (score r)
                                              \<and> dle (score r) (range_max g)) rs)))
               (ranges tp)
       \<and> count (calculateScoreDistribution (rs1 @ r # rs2) tp ! Suc i) =
           count (calculateScoreDistribution (rs1 @ rs2) tp ! Suc i)
       \<and> count (calculateScoreDistribution (rs1 @ r # rs2) tp ! i) =
           count (calculateScoreDistribution (rs1 @ rs2) tp ! i)
             + (if dless (range_min (ranges tp ! i)) (range_max (ranges tp ! i)) then 1 else 0)
       \<and> (\<forall>t. tp = Finite t \<and> 2 powi (- 1019) \<le> t \<and> t < 2 powi 1024 \<longrightarrow>
            (\<exists>b. range_max (ranges tp ! i) = Finite b
                 \<and> \<bar>b - t * of_nat (Suc i) / 5\<bar> \<le> t * of_nat (Suc i) / 5 / 2 ^ 51)
            \<and> dless (range_min (ranges tp ! i)) (range_max (ranges tp ! i))
            \<and> map count (calculateScoreDistribution (rs1 @ r # rs2) tp) =
                (map count (calculateScoreDistribution (rs1 @ rs2) tp))
                  [i := count (calculateScoreDistribution (rs1 @ rs2) tp ! i) + 1])"
proof -
  have a: "map (\<lambda>g. (range_min g, range_max g)) (ranges tp) =
           [(Finite 0, dmul tp (to_double 0.2)),
            (dmul tp (to_double 0.2), dmul tp (to_double 0.4)),
            (dmul tp (to_double 0.4), dmul tp (to_double 0.6)),
            (dmul tp (to_double 0.6), dmul tp (to_double 0.8)),
            (dmul tp (to_double 0.8), tp)]"
    unfolding ranges_def by simp
  have b: "map count (calculateScoreDistribution rs tp) =
           map (\<lambda>g. int (length (filter (\<lambda>r. dless (range_min g) (score r)
                                              \<and> dle (score r) (range_max g)) rs)))
               (ranges tp)"
    unfolding calculateScoreDistribution_def by (simp add: comp_def)
  from assms(1) have i5: "i < 5" "Suc i < 5" by simp_all
  have c: "count (calculateScoreDistribution (rs1 @ r # rs2) tp ! Suc i) =
           count (calculateScoreDistribution (rs1 @ rs2) tp ! Suc i)"
    unfolding count_calculateScoreDistribution [OF i5(2)] range_min_Suc [OF assms(1)]
    using dless_irrefl [of "score r"] by (simp add: assms(2) [symmetric])
  have d: "count (calculateScoreDistribution (rs1 @ r # rs2) tp ! i) =
           count (calculateScoreDistribution (rs1 @ rs2) tp ! i)
             + (if dless (range_min (ranges tp ! i)) (range_max (ranges tp ! i)) then 1 else 0)"
    unfolding count_calculateScoreDistribution [OF i5(1)]
    using dless_not_NaN [of "range_min (ranges tp ! i)" "score r"]
    by (simp add: dle_refl_iff assms(2) [symmetric])
  have e: "\<forall>t. tp = Finite t \<and> 2 powi (- 1019) \<le> t \<and> t < 2 powi 1024 \<longrightarrow>
            (\<exists>b. range_max (ranges tp ! i) = Finite b
                 \<and> \<bar>b - t * of_nat (Suc i) / 5\<bar> \<le> t * of_nat (Suc i) / 5 / 2 ^ 51)
            \<and> dless (range_min (ranges tp ! i)) (range_max (ranges tp ! i))
            \<and> map count (calculateScoreDistribution (rs1 @ r # rs2) tp) =
                (map count (calculateScoreDistribution (rs1 @ rs2) tp))
                  [i := count (calculateScoreDistribution (rs1 @ rs2) tp ! i) + 1]"
    using boundary_segments [OF _ _ assms(1)] assms(2) by blast
  from a b c d e show ?thesis by blast
qed

theorem boundary_score_in_lower_bucket_witness:
  "(0::nat) < 4
   \<and> score (sample_result ''r5'' 4 100 6000) = range_max (ranges (Finite 20) ! 0)
   \<and> range_max (ranges (Finite 20) ! 0) = Finite 4
   \<and> 2 powi (- 1019) \<le> (20::rat) \<and> (20::rat) < 2 powi 1024
   \<and> dless (range_min (ranges (Finite 20) ! 0)) (range_max (ranges (Finite 20) ! 0))
   \<and> map count (calculateScoreDistribution sample_results (Finite 20)) = [0, 0, 1, 1, 2]
   \<and> map count (calculateScoreDistribution
                   (sample_result ''r5'' 4 100 6000 # sample_results) (Finite 20))
       = [1, 0, 1, 1, 2]"
proof -
  have a: "(0::nat) < 4" by simp
  have c: "score (sample_result ''r5'' 4 100 6000) = range_max (ranges (Finite 20) ! 0)"
    by code_simp
  have d: "map count (calculateScoreDistribution sample_results (Finite 20)) = [0, 0, 1, 1, 2]"
    by code_simp
  have d0: "count (calculateScoreDistribution sample_results (Finite 20) ! 0) = 0"
    by code_simp
  have e: "range_max (ranges (Finite 20) ! 0) = Finite 4"
    by code_simp
  have "(2::rat) powi (- 1019) \<le> 2 powi 0" by (rule power_int_increasing) simp_all
  then have lo: "2 powi (- 1019) \<le> (20::rat)" by simp
  have "(2::rat) powi 5 \<le> 2 powi 1024" by (rule power_int_increasing) simp_all
  then have hi: "(20::rat) < 2 powi 1024" by simp
  from boundary_score_in_lower_bucket [OF a c, of "[]" "[]" sample_results]
  have "\<forall>t. Finite 20 = Finite t \<and> 2 powi (- 1019) \<le> t \<and> t < 2 powi 1024 \<longrightarrow>
            (\<exists>b. range_max (ranges (Finite 20) ! 0) = Finite b
                 \<and> \<bar>b - t * of_nat (Suc 0) / 5\<bar> \<le> t * of_nat (Suc 0) / 5 / 2 ^ 51)
            \<and> dless (range_min (ranges (Finite 20) ! 0)) (range_max (ranges (Finite 20) ! 0))
            \<and> map count (calculateScoreDistribution
                   ([] @ sample_result ''r5'' 4 100 6000 # sample_results) (Finite 20)) =
                (map count (calculateScoreDistribution ([] @ sample_results) (Finite 20)))
                  [0 := count (calculateScoreDistribution ([] @ sample_results) (Finite 20) ! 0) + 1]"
    by blast
  with lo hi have
    "dless (range_min (ranges (Finite 20) ! 0)) (range_max (ranges (Finite 20) ! 0))
     \<and> map count (calculateScoreDistribution
                   ([] @ sample_result ''r5'' 4 100 6000 # sample_results) (Finite 20)) =
                (map count (calculateScoreDistribution ([] @ sample_results) (Finite 20)))
                  [0 := count (calculateScoreDistribution ([] @ sample_results) (Finite 20) ! 0) + 1]"
    by blast
  then have
    "dless (range_min (ranges (Finite 20) ! 0)) (range_max (ranges (Finite 20) ! 0))
     \<and> map count (calculateScoreDistribution
                   (sample_result ''r5'' 4 100 6000 # sample_results) (Finite 20))
         = [1, 0, 1, 1, 2]"
    by (simp add: d d0)
  with a c d e lo hi show ?thesis by blast
qed

text \<open>
  The product \<open>3 * 0.2\<close> is the double above 0.6: a score of that value, and a score
  of 0.6, are both counted in the first bucket of a quiz with 3 total points.
\<close>

lemma three_times_a_fifth:
  "dmul (Finite 3) (to_double 0.2) = Finite (1351079888211149 / 2251799813685248)
   \<and> dless (to_double 0.6) (dmul (Finite 3) (to_double 0.2))
   \<and> map count (calculateScoreDistribution
         [sample_result ''r6'' (1351079888211149 / 2251799813685248) 100 6000,
          sample_result ''r7'' 0.6 100 7000] (Finite 3)) = [2, 0, 0, 0, 0]"
  by code_simp

section \<open>Retake eligibility\<close>



lemma no_attempt_error_500:
  assumes "findById (quizzes st) qid = Some q"
      and "filter (\<lambda>r. quizId r = qid \<and> userId r = uid) (quizResults st) = []"
      and "\<not> canUserRetake q 0"
  shows "canUserTakeQuiz now st qid uid = Inl (ApiError 500 ''Failed to check quiz eligibility'' [])"
  using assms by (simp add: canUserTakeQuiz_def)




section \<open>Lesson authorization\<close>

text \<open>
  C8: whatever the lesson service does, an update or delete request for a lesson that
  is not stored fails with the error 404, and one by a user who is neither the
  lesson's creator nor an admin fails with the error 403; in both cases the collection
  is what it was and the result does not depend on the service, which is not called.
\<close>

theorem lesson_change_forbidden_or_not_found:
  "(find (\<lambda>l. lesson_id l = params_id req) lessons = None \<longrightarrow>
      updateLesson service_updateLesson lessons req =
        (lessons, Inl (ApiError 404 ''Lecon de physique introuvable'' []))
      \<and> deleteLesson service_deleteLesson lessons req =
        (lessons, Inl (ApiError 404 ''Lecon de physique introuvable'' [])))
   \<and> (find (\<lambda>l. lesson_id l = params_id req) lessons = Some lesson \<longrightarrow>
      createdBy lesson = Some creator \<longrightarrow>
      creator \<noteq> user_id (req_user req) \<longrightarrow>
      role (req_user req) \<noteq> ''admin'' \<longrightarrow>
      updateLesson service_updateLesson lessons req =
        (lessons, Inl (ApiError 403 ''Non autorise a mettre a jour cette lecon de physique'' []))
      \<and> deleteLesson service_deleteLesson lessons req =
        (lessons, Inl (ApiError 403 ''Non autorise a supprimer cette lecon de physique'' [])))"
  by (simp add: updateLesson_def deleteLesson_def)

theorem lesson_change_forbidden_or_not_found_witness:
  "find (\<lambda>l. lesson_id l = params_id (sample_request ''l9'')) [sample_lesson] = None
   \<and> updateLesson (\<lambda>i b u. service_stub) [sample_lesson] (sample_request ''l9'') =
        ([sample_lesson], Inl (ApiError 404 ''Lecon de physique introuvable'' []))
   \<and> deleteLesson (\<lambda>i. service_stub) [sample_lesson] (sample_request ''l9'') =
        ([sample_lesson], Inl (ApiError 404 ''Lecon de physique introuvable'' []))
   \<and> find (\<lambda>l. lesson_id l = params_id (sample_request ''l1'')) [sample_lesson]
        = Some sample_lesson
   \<and> createdBy sample_lesson = Some ''teacher1''
   \<and> ''teacher1'' \<noteq> user_id (req_user (sample_request ''l1''))
   \<and> role (req_user (sample_request ''l1'')) \<noteq> ''admin''
   \<and> updateLesson (\<lambda>i b u. service_stub) [sample_lesson] (sample_request ''l1'') =
        ([sample_lesson],
         Inl (ApiError 403 ''Non autorise a mettre a jour cette lecon de physique'' []))
   \<and> deleteLesson (\<lambda>i. service_stub) [sample_lesson] (sample_request ''l1'') =
        ([sample_lesson],
         Inl (ApiError 403 ''Non autorise a supprimer cette lecon de physique'' []))"
proof -
  have a: "find (\<lambda>l. lesson_id l = params_id (sample_request ''l9'')) [sample_lesson] = None"
    by (simp add: sample_request_def sample_lesson_def)
  have b: "find (\<lambda>l. lesson_id l = params_id (sample_request ''l1'')) [sample_lesson]
        = Some sample_lesson"
    by (simp add: sample_request_def sample_lesson_def)
  have c: "createdBy sample_lesson = Some ''teacher1''"
    by (simp add: sample_lesson_def)
  have d: "''teacher1'' \<noteq> user_id (req_user (sample_request ''l1''))"
    by (simp add: sample_request_def)
  have e: "role (req_user (sample_request ''l1'')) \<noteq> ''admin''"
    by (simp add: sample_request_def)
  from lesson_change_forbidden_or_not_found
         [of "sample_request ''l9''" "[sample_lesson]" "\<lambda>i b u. service_stub"
             "\<lambda>i. service_stub" sample_lesson "''teacher1''"]
       lesson_change_forbidden_or_not_found
         [of "sample_request ''l1''" "[sample_lesson]" "\<lambda>i b u. service_stub"
             "\<lambda>i. service_stub" sample_lesson "''teacher1''"]
       a b c d e
  show ?thesis by simp
qed

section \<open>Listing with pagination\<close>

text \<open>
  Both list operations have the same shape: an error for an invalid search pattern or
  a negative skip, and otherwise one page of the sorted matching documents with the
  pagination computed from their number.
\<close>

lemma getSubjects_unfold:
  assumes "page = (case q_page query of None \<Rightarrow> 1 | Some p \<Rightarrow> p)"
      and "limit' = (case q_limit query of None \<Rightarrow> 10 | Some l \<Rightarrow> l)"
      and "flt = (if truthy (q_search query)
                  then (build_filter query)\<lparr>sf_or := regex (the (q_search query))\<rparr>
                  else build_filter query)"
      and "key = subject_sort_key (case q_sortBy query of None \<Rightarrow> ''name'' | Some s \<Rightarrow> s)"
      and "dir = (if (case q_sortOrder query of None \<Rightarrow> ''asc'' | Some s \<Rightarrow> s) = ''desc''
                  then - 1 else 1)"
      and "found = filter (subject_matches flt) subjects"
  shows "getSubjects regex subjects query =
      (if truthy (q_search query) \<and> regex (the (q_search query)) = None then Inl MongoError
       else if (page - 1) * limit' < 0 then Inl MongoError
       else Inr (limit_docs limit' (skip_docs ((page - 1) * limit') (sort_docs key dir found)),
                 \<lparr>sp_currentPage = page,
                  sp_totalPages = Math_ceil_quotient (int (length found)) limit',
                  totalCount = int (length found),
                  hasNextPage = js_less page (Math_ceil_quotient (int (length found)) limit'),
                  hasPrevPage = (page > 1)\<rparr>))"
  unfolding getSubjects_def Let_def assms by (rule refl)

lemma getSubjects_Inr:
  assumes "getSubjects regex subjects query = Inr (items, pg)"
      and "page = (case q_page query of None \<Rightarrow> 1 | Some p \<Rightarrow> p)"
      and "limit' = (case q_limit query of None \<Rightarrow> 10 | Some l \<Rightarrow> l)"
  shows "\<exists>flt (key :: subject \<Rightarrow> string) dir found.
           sf_status flt = ''active''
           \<and> found = filter (subject_matches flt) subjects
           \<and> items = limit_docs limit' (skip_docs ((page - 1) * limit') (sort_docs key dir found))
           \<and> pg = \<lparr>sp_currentPage = page,
                    sp_totalPages = Math_ceil_quotient (int (length found)) limit',
                    totalCount = int (length found),
                    hasNextPage = js_less page (Math_ceil_quotient (int (length found)) limit'),
                    hasPrevPage = (page > 1)\<rparr>"
proof -
  define flt where "flt = (if truthy (q_search query)
      then (build_filter query)\<lparr>sf_or := regex (the (q_search query))\<rparr> else build_filter query)"
  define key :: "subject \<Rightarrow> string"
    where "key = subject_sort_key (case q_sortBy query of None \<Rightarrow> ''name'' | Some s \<Rightarrow> s)"
  define dir :: int
    where "dir = (if (case q_sortOrder query of None \<Rightarrow> ''asc'' | Some s \<Rightarrow> s) = ''desc''
                  then - 1 else 1)"
  define found where "found = filter (subject_matches flt) subjects"
  define items0 where
    "items0 = limit_docs limit' (skip_docs ((page - 1) * limit') (sort_docs key dir found))"
  define pg0 where "pg0 = \<lparr>sp_currentPage = page,
                    sp_totalPages = Math_ceil_quotient (int (length found)) limit',
                    totalCount = int (length found),
                    hasNextPage = js_less page (Math_ceil_quotient (int (length found)) limit'),
                    hasPrevPage = (page > 1)\<rparr>"
  have st: "sf_status flt = ''active''"
    by (simp add: flt_def build_filter_def)
  note eq = getSubjects_unfold [where regex = regex and query = query and subjects = subjects,
      OF assms(2,3) flt_def key_def dir_def found_def, folded items0_def pg0_def]
  have "items = items0 \<and> pg = pg0"
    using assms(1) unfolding eq by (simp split: if_splits)
  with st found_def show ?thesis
    unfolding items0_def pg0_def
    by (intro exI [of _ flt] exI [of _ key] exI [of _ dir] exI [of _ found]) simp
qed

lemma getSubjects_returns:
  assumes "1 \<le> (case q_page query of None \<Rightarrow> 1 | Some p \<Rightarrow> p)"
      and "1 \<le> (case q_limit query of None \<Rightarrow> 10 | Some l \<Rightarrow> l)"
      and "truthy (q_search query) \<longrightarrow> regex (the (q_search query)) \<noteq> None"
  shows "\<exists>items pg. getSubjects regex subjects query = Inr (items, pg)"
proof -
  define page where "page = (case q_page query of None \<Rightarrow> 1 | Some p \<Rightarrow> p)"
  define limit' where "limit' = (case q_limit query of None \<Rightarrow> 10 | Some l \<Rightarrow> l)"
  have "0 \<le> (page - 1) * limit'"
    using assms(1,2) by (simp add: page_def limit'_def)
  then show ?thesis
    using assms(3)
      getSubjects_unfold [where regex = regex and query = query and subjects = subjects,
        OF page_def limit'_def refl refl refl refl]
    by (simp add: not_less)
qed

lemma getAllQuizzes_unfold:
  assumes "page = (case o_page options of None \<Rightarrow> 1 | Some p \<Rightarrow> p)"
      and "limit' = (case o_limit options of None \<Rightarrow> 10 | Some l \<Rightarrow> l)"
      and "query = assign (if truthy (o_search options)
                           then (build_query options)\<lparr>f_or := regex (the (o_search options))\<rparr>
                           else build_query options) filters"
      and "key = quiz_sort_key (case o_sortBy options of None \<Rightarrow> ''createdAt'' | Some s \<Rightarrow> s)"
      and "dir = (if (case o_sortOrder options of None \<Rightarrow> ''desc'' | Some s \<Rightarrow> s) = ''desc''
                  then - 1 else 1)"
      and "found = filter (quiz_matches query) (quizzes st)"
  shows "getAllQuizzes regex st filters options =
      (if truthy (o_search options) \<and> regex (the (o_search options)) = None
       then Inl (ApiError 500 ''Failed to retrieve quizzes'' [])
       else if (page - 1) * limit' < 0 then Inl (ApiError 500 ''Failed to retrieve quizzes'' [])
       else Inr \<lparr>statusCode = 200,
                 data = (limit_docs limit' (skip_docs ((page - 1) * limit') (sort_docs key dir found)),
                         \<lparr>currentPage = page,
                          totalPages = Math_ceil_quotient (int (length found)) limit',
                          totalItems = int (length found),
                          itemsPerPage = limit',
                          hasNext = js_less page (Math_ceil_quotient (int (length found)) limit'),
                          hasPrev = (page > 1)\<rparr>),
                 message = Some ''Quizzes retrieved successfully''\<rparr>)"
  unfolding getAllQuizzes_def Let_def assms by (rule refl)

lemma getAllQuizzes_Inr:
  assumes "getAllQuizzes regex st filters options = Inr r"
      and "page = (case o_page options of None \<Rightarrow> 1 | Some p \<Rightarrow> p)"
      and "limit' = (case o_limit options of None \<Rightarrow> 10 | Some l \<Rightarrow> l)"
  shows "\<exists>(key :: quiz \<Rightarrow> (int \<times> rat) \<times> string) dir found.
           fst (data r) = limit_docs limit' (skip_docs ((page - 1) * limit') (sort_docs key dir found))
           \<and> snd (data r) = \<lparr>currentPage = page,
                    totalPages = Math_ceil_quotient (int (length found)) limit',
                    totalItems = int (length found),
                    itemsPerPage = limit',
                    hasNext = js_less page (Math_ceil_quotient (int (length found)) limit'),
                    hasPrev = (page > 1)\<rparr>"
proof -
  define key :: "quiz \<Rightarrow> (int \<times> rat) \<times> string"
    where "key = quiz_sort_key (case o_sortBy options of None \<Rightarrow> ''createdAt'' | Some s \<Rightarrow> s)"
  define dir :: int
    where "dir = (if (case o_sortOrder options of None \<Rightarrow> ''desc'' | Some s \<Rightarrow> s) = ''desc''
                  then - 1 else 1)"
  define found where "found = filter (quiz_matches (assign (if truthy (o_search options)
      then (build_query options)\<lparr>f_or := regex (the (o_search options))\<rparr>
      else build_query options) filters)) (quizzes st)"
  define items0 where
    "items0 = limit_docs limit' (skip_docs ((page - 1) * limit') (sort_docs key dir found))"
  define pg0 where "pg0 = \<lparr>currentPage = page,
                    totalPages = Math_ceil_quotient (int (length found)) limit',
                    totalItems = int (length found),
                    itemsPerPage = limit',
                    hasNext = js_less page (Math_ceil_quotient (int (length found)) limit'),
                    hasPrev = (page > 1)\<rparr>"
  note eq = getAllQuizzes_unfold [where regex = regex and options = options
        and filters = filters and st = st,
      OF assms(2,3) refl key_def dir_def found_def, folded items0_def pg0_def]
  have "fst (data r) = items0 \<and> snd (data r) = pg0"
    using assms(1) unfolding eq by (auto split: if_splits)
  then show ?thesis
    unfolding items0_def pg0_def
    by (intro exI [of _ key] exI [of _ dir] exI [of _ found]) simp
qed

lemma getAllQuizzes_returns:
  assumes "1 \<le> (case o_page options of None \<Rightarrow> 1 | Some p \<Rightarrow> p)"
      and "1 \<le> (case o_limit options of None \<Rightarrow> 10 | Some l \<Rightarrow> l)"
      and "truthy (o_search options) \<longrightarrow> regex (the (o_search options)) \<noteq> None"
  shows "\<exists>r. getAllQuizzes regex st filters options = Inr r"
proof -
  define page where "page = (case o_page options of None \<Rightarrow> 1 | Some p \<Rightarrow> p)"
  define limit' where "limit' = (case o_limit options of None \<Rightarrow> 10 | Some l \<Rightarrow> l)"
  have "0 \<le> (page - 1) * limit'"
    using assms(1,2) by (simp add: page_def limit'_def)
  then show ?thesis
    using assms(3)
      getAllQuizzes_unfold [where regex = regex and options = options
          and filters = filters and st = st,
        OF page_def limit'_def refl refl refl refl]
    by (simp add: not_less)
qed

lemma length_page:
  assumes "0 \<le> k" and "1 \<le> n"
  shows "int (length (limit_docs n (skip_docs k (sort_docs key dir ds))))
           = min n (max 0 (int (length ds) - k))"
proof -
  have "length (sort_docs key dir ds) = length ds"
    by (simp add: sort_docs_def)
  then have "length (limit_docs n (skip_docs k (sort_docs key dir ds)))
               = min (nat n) (length ds - nat k)"
    using assms by (simp add: limit_docs_def skip_docs_def)
  then show ?thesis
    using assms by linarith
qed

lemma set_page: "set (limit_docs n (skip_docs k (sort_docs key dir ds))) \<subseteq> set ds"
  using set_limit_docs [of n "skip_docs k (sort_docs key dir ds)"]
    set_skip_docs [of k "sort_docs key dir ds"] set_sort_docs [of key dir ds]
  by blast

lemma getSubjects_page:
  assumes "getSubjects regex subjects query = Inr (items, pg)"
      and "page = (case q_page query of None \<Rightarrow> 1 | Some p \<Rightarrow> p)"
      and "limit' = (case q_limit query of None \<Rightarrow> 10 | Some l \<Rightarrow> l)"
      and "flt = (if truthy (q_search query)
                  then (build_filter query)\<lparr>sf_or := regex (the (q_search query))\<rparr>
                  else build_filter query)"
      and "found = filter (subject_matches flt) subjects"
  shows "\<exists>(key :: subject \<Rightarrow> string) dir.
           0 \<le> (page - 1) * limit'
           \<and> items = limit_docs limit' (skip_docs ((page - 1) * limit') (sort_docs key dir found))
           \<and> pg = \<lparr>sp_currentPage = page,
                    sp_totalPages = Math_ceil_quotient (int (length found)) limit',
                    totalCount = int (length found),
                    hasNextPage = js_less page (Math_ceil_quotient (int (length found)) limit'),
                    hasPrevPage = (page > 1)\<rparr>"
proof -
  define key :: "subject \<Rightarrow> string"
    where "key = subject_sort_key (case q_sortBy query of None \<Rightarrow> ''name'' | Some s \<Rightarrow> s)"
  define dir :: int
    where "dir = (if (case q_sortOrder query of None \<Rightarrow> ''asc'' | Some s \<Rightarrow> s) = ''desc''
                  then - 1 else 1)"
  define items0 where
    "items0 = limit_docs limit' (skip_docs ((page - 1) * limit') (sort_docs key dir found))"
  define pg0 where "pg0 = \<lparr>sp_currentPage = page,
                    sp_totalPages = Math_ceil_quotient (int (length found)) limit',
                    totalCount = int (length found),
                    hasNextPage = js_less page (Math_ceil_quotient (int (length found)) limit'),
                    hasPrevPage = (page > 1)\<rparr>"
  note eq = getSubjects_unfold [where regex = regex and query = query and subjects = subjects,
      OF assms(2,3,4) key_def dir_def assms(5), folded items0_def pg0_def]
  have "0 \<le> (page - 1) * limit' \<and> items = items0 \<and> pg = pg0"
    using assms(1) unfolding eq by (simp split: if_splits)
  then show ?thesis
    unfolding items0_def pg0_def
    by (intro exI [of _ key] exI [of _ dir]) simp
qed

lemma getAllQuizzes_page:
  assumes "getAllQuizzes regex st filters options = Inr r"
      and "page = (case o_page options of None \<Rightarrow> 1 | Some p \<Rightarrow> p)"
      and "limit' = (case o_limit options of None \<Rightarrow> 10 | Some l \<Rightarrow> l)"
      and "query = assign (if truthy (o_search options)
                           then (build_query options)\<lparr>f_or := regex (the (o_search options))\<rparr>
                           else build_query options) filters"
      and "found = filter (quiz_matches query) (quizzes st)"
  shows "\<exists>(key :: quiz \<Rightarrow> (int \<times> rat) \<times> string) dir.
           0 \<le> (page - 1) * limit'
           \<and> fst (data r) = limit_docs limit' (skip_docs ((page - 1) * limit') (sort_docs key dir found))
           \<and> snd (data r) = \<lparr>currentPage = page,
                    totalPages = Math_ceil_quotient (int (length found)) limit',
                    totalItems = int (length found),
                    itemsPerPage = limit',
                    hasNext = js_less page (Math_ceil_quotient (int (length found)) limit'),
                    hasPrev = (page > 1)\<rparr>"
proof -
  define key :: "quiz \<Rightarrow> (int \<times> rat) \<times> string"
    where "key = quiz_sort_key (case o_sortBy options of None \<Rightarrow> ''createdAt'' | Some s \<Rightarrow> s)"
  define dir :: int
    where "dir = (if (case o_sortOrder options of None \<Rightarrow> ''desc'' | Some s \<Rightarrow> s) = ''desc''
                  then - 1 else 1)"
  define items0 where
    "items0 = limit_docs limit' (skip_docs ((page - 1) * limit') (sort_docs key dir found))"
  define pg0 where "pg0 = \<lparr>currentPage = page,
                    totalPages = Math_ceil_quotient (int (length found)) limit',
                    totalItems = int (length found),
                    itemsPerPage = limit',
                    hasNext = js_less page (Math_ceil_quotient (int (length found)) limit'),
                    hasPrev = (page > 1)\<rparr>"
  note eq = getAllQuizzes_unfold [where regex = regex and options = options
        and filters = filters and st = st,
      OF assms(2,3,4) key_def dir_def assms(5), folded items0_def pg0_def]
  have "0 \<le> (page - 1) * limit' \<and> fst (data r) = items0 \<and> snd (data r) = pg0"
    using assms(1) unfolding eq by (auto split: if_splits)
  then show ?thesis
    unfolding items0_def pg0_def
    by (intro exI [of _ key] exI [of _ dir]) simp
qed

lemma page_facts:
  assumes "1 \<le> limit'" and "0 \<le> (page - 1) * limit'"
      and "items = limit_docs limit' (skip_docs ((page - 1) * limit') (sort_docs key dir found))"
      and "total' = int (length found)"
  shows "Math_ceil_quotient total' limit' = Num \<lceil>(of_int total' :: rat) / of_int limit'\<rceil>
       \<and> (\<lceil>(of_int total' :: rat) / of_int limit'\<rceil> - 1) * limit' < total'
       \<and> total' \<le> \<lceil>(of_int total' :: rat) / of_int limit'\<rceil> * limit'
       \<and> set items \<subseteq> set found
       \<and> int (length items) = min limit' (max 0 (total' - (page - 1) * limit'))
       \<and> int (length items) \<le> limit'
       \<and> js_less page (Math_ceil_quotient total' limit')
            = (page < \<lceil>(of_int total' :: rat) / of_int limit'\<rceil>)"
proof -
  have pos: "0 < limit'" using assms(1) by simp
  have l: "int (length items) = min limit' (max 0 (total' - (page - 1) * limit'))"
    unfolding assms(3,4) by (rule length_page [OF assms(2,1)])
  then have "int (length items) \<le> limit'" by simp
  moreover have "set items \<subseteq> set found"
    unfolding assms(3) by (rule set_page)
  ultimately show ?thesis
    using ceiling_quotient_bounds [OF pos, of total'] l
    by (simp add: Math_ceil_quotient_pos [OF assms(1)])
qed

text \<open>
  C2, as stated, fails: a page size of 0 sets no limit on the cursor and a negative one
  counts as its absolute value, so the list of subjects with \<open>limit = 0\<close> holds all
  three active subjects, and the list of quizzes with \<open>limit = -1\<close> holds one quiz: more
  items than \<open>limit\<close>.
\<close>

theorem list_items_exceed_limit:
  "getSubjects RegExp_i sample_subjects (no_query\<lparr>q_limit := Some 0\<rparr>)
     = Inr ([sample_subject\<lparr>subject_id := ''s4'', name := ''Anglais'', code := ''ANG01''\<rparr>,
             sample_subject\<lparr>subject_id := ''s2'', name := ''Chimie'', code := ''CHI01''\<rparr>,
             sample_subject],
            \<lparr>sp_currentPage = 1, sp_totalPages = Infinity, totalCount = 3,
             hasNextPage = True, hasPrevPage = False\<rparr>)
   \<and> \<not> int (length [sample_subject\<lparr>subject_id := ''s4'', name := ''Anglais'', code := ''ANG01''\<rparr>,
             sample_subject\<lparr>subject_id := ''s2'', name := ''Chimie'', code := ''CHI01''\<rparr>,
             sample_subject]) \<le> 0
   \<and> getAllQuizzes RegExp_i sample_store no_filters (no_options\<lparr>o_limit := Some (- 1)\<rparr>)
       = Inr \<lparr>statusCode = 200,
              data = ([sample_quiz],
                      \<lparr>currentPage = 1, totalPages = Num (- 1), totalItems = 1,
                       itemsPerPage = - 1, hasNext = False, hasPrev = False\<rparr>),
              message = Some ''Quizzes retrieved successfully''\<rparr>
   \<and> \<not> int (length [sample_quiz]) \<le> - 1"
  by code_simp

text \<open>
  C2, amended: a list call of either service with page size \<open>limit \<ge> 1\<close> (given or the
  default 10) returns whenever \<open>page \<ge> 1\<close> and the search term, if any, is a valid
  pattern. Whenever it returns, with \<open>total\<close> the number of stored documents that match
  the filter built from the call (and, for quizzes, the \<open>filters\<close> argument assigned
  over it), the count it reports is \<open>total\<close>, \<open>totalPages\<close> is \<open>ceil(total / limit)\<close>, the
  least number of pages of \<open>limit\<close> items that hold \<open>total\<close> items, the items are
  matching documents, as many as are left of \<open>total\<close> after the pages before, and at
  most \<open>limit\<close>, \<open>hasNextPage\<close> (\<open>hasNext\<close>) is \<open>page < ceil(total / limit)\<close> and
  \<open>hasPrevPage\<close> (\<open>hasPrev\<close>) is \<open>page > 1\<close>.
\<close>

theorem list_pagination:
  assumes "1 \<le> limit'"
  shows "(page = (case q_page query of None \<Rightarrow> 1 | Some p \<Rightarrow> p) \<longrightarrow>
          limit' = (case q_limit query of None \<Rightarrow> 10 | Some l \<Rightarrow> l) \<longrightarrow>
          flt = (if truthy (q_search query)
                 then (build_filter query)\<lparr>sf_or := regex (the (q_search query))\<rparr>
                 else build_filter query) \<longrightarrow>
          total' = int (length (filter (subject_matches flt) subjects)) \<longrightarrow>
            (1 \<le> page \<longrightarrow> (truthy (q_search query) \<longrightarrow> regex (the (q_search query)) \<noteq> None) \<longrightarrow>
               (\<exists>items' pg'. getSubjects regex subjects query = Inr (items', pg')))
            \<and> (getSubjects regex subjects query = Inr (items, pg) \<longrightarrow>
               totalCount pg = total'
               \<and> sp_totalPages pg = Num \<lceil>(of_int total' :: rat) / of_int limit'\<rceil>
               \<and> (\<lceil>(of_int total' :: rat) / of_int limit'\<rceil> - 1) * limit' < total'
               \<and> total' \<le> \<lceil>(of_int total' :: rat) / of_int limit'\<rceil> * limit'
               \<and> set items \<subseteq> set (filter (subject_matches flt) subjects)
               \<and> int (length items) = min limit' (max 0 (total' - (page - 1) * limit'))
               \<and> int (length items) \<le> limit'
               \<and> hasNextPage pg = (page < \<lceil>(of_int total' :: rat) / of_int limit'\<rceil>)
               \<and> hasPrevPage pg = (1 < page)))
       \<and> (page = (case o_page options of None \<Rightarrow> 1 | Some p \<Rightarrow> p) \<longrightarrow>
          limit' = (case o_limit options of None \<Rightarrow> 10 | Some l \<Rightarrow> l) \<longrightarrow>
          qry = assign (if truthy (o_search options)
                        then (build_query options)\<lparr>f_or := regex (the (o_search options))\<rparr>
                        else build_query options) filters \<longrightarrow>
          total' = int (length (filter (quiz_matches qry) (quizzes st))) \<longrightarrow>
            (1 \<le> page \<longrightarrow> (truthy (o_search options) \<longrightarrow> regex (the (o_search options)) \<noteq> None) \<longrightarrow>
               (\<exists>r'. getAllQuizzes regex st filters options = Inr r'))
            \<and> (getAllQuizzes regex st filters options = Inr r \<longrightarrow>
               totalItems (snd (data r)) = total'
               \<and> totalPages (snd (data r)) = Num \<lceil>(of_int total' :: rat) / of_int limit'\<rceil>
               \<and> (\<lceil>(of_int total' :: rat) / of_int limit'\<rceil> - 1) * limit' < total'
               \<and> total' \<le> \<lceil>(of_int total' :: rat) / of_int limit'\<rceil> * limit'
               \<and> set (fst (data r)) \<subseteq> set (filter (quiz_matches qry) (quizzes st))
               \<and> int (length (fst (data r))) = min limit' (max 0 (total' - (page - 1) * limit'))
               \<and> int (length (fst (data r))) \<le> limit'
               \<and> hasNext (snd (data r)) = (page < \<lceil>(of_int total' :: rat) / of_int limit'\<rceil>)
               \<and> hasPrev (snd (data r)) = (1 < page)))"
proof -
  have subj: "totalCount pg = total'
               \<and> sp_totalPages pg = Num \<lceil>(of_int total' :: rat) / of_int limit'\<rceil>
               \<and> (\<lceil>(of_int total' :: rat) / of_int limit'\<rceil> - 1) * limit' < total'
               \<and> total' \<le> \<lceil>(of_int total' :: rat) / of_int limit'\<rceil> * limit'
               \<and> set items \<subseteq> set (filter (subject_matches flt) subjects)
               \<and> int (length items) = min limit' (max 0 (total' - (page - 1) * limit'))
               \<and> int (length items) \<le> limit'
               \<and> hasNextPage pg = (page < \<lceil>(of_int total' :: rat) / of_int limit'\<rceil>)
               \<and> hasPrevPage pg = (1 < page)"
    if a: "getSubjects regex subjects query = Inr (items, pg)"
      and p: "page = (case q_page query of None \<Rightarrow> 1 | Some p \<Rightarrow> p)"
      and l: "limit' = (case q_limit query of None \<Rightarrow> 10 | Some l \<Rightarrow> l)"
      and f: "flt = (if truthy (q_search query)
                 then (build_filter query)\<lparr>sf_or := regex (the (q_search query))\<rparr>
                 else build_filter query)"
      and t: "total' = int (length (filter (subject_matches flt) subjects))"
  proof -
    define found where "found = filter (subject_matches flt) subjects"
    from getSubjects_page [OF a p l f found_def]
    obtain key :: "subject \<Rightarrow> string" and dir where
      s: "0 \<le> (page - 1) * limit'"
      and i: "items = limit_docs limit' (skip_docs ((page - 1) * limit') (sort_docs key dir found))"
      and g: "pg = \<lparr>sp_currentPage = page,
                    sp_totalPages = Math_ceil_quotient (int (length found)) limit',
                    totalCount = int (length found),
                    hasNextPage = js_less page (Math_ceil_quotient (int (length found)) limit'),
                    hasPrevPage = (page > 1)\<rparr>"
      by blast
    have t': "total' = int (length found)" using t by (simp add: found_def)
    from page_facts [OF assms s i t'] show ?thesis
      unfolding found_def [symmetric] by (simp add: g t' [symmetric])
  qed
  have quiz: "totalItems (snd (data r)) = total'
               \<and> totalPages (snd (data r)) = Num \<lceil>(of_int total' :: rat) / of_int limit'\<rceil>
               \<and> (\<lceil>(of_int total' :: rat) / of_int limit'\<rceil> - 1) * limit' < total'
               \<and> total' \<le> \<lceil>(of_int total' :: rat) / of_int limit'\<rceil> * limit'
               \<and> set (fst (data r)) \<subseteq> set (filter (quiz_matches qry) (quizzes st))
               \<and> int (length (fst (data r))) = min limit' (max 0 (total' - (page - 1) * limit'))
               \<and> int (length (fst (data r))) \<le> limit'
               \<and> hasNext (snd (data r)) = (page < \<lceil>(of_int total' :: rat) / of_int limit'\<rceil>)
               \<and> hasPrev (snd (data r)) = (1 < page)"
    if a: "getAllQuizzes regex st filters options = Inr r"
      and p: "page = (case o_page options of None \<Rightarrow> 1 | Some p \<Rightarrow> p)"
      and l: "limit' = (case o_limit options of None \<Rightarrow> 10 | Some l \<Rightarrow> l)"
      and f: "qry = assign (if truthy (o_search options)
                        then (build_query options)\<lparr>f_or := regex (the (o_search options))\<rparr>
                        else build_query options) filters"
      and t: "total' = int (length (filter (quiz_matches qry) (quizzes st)))"
  proof -
    define found where "found = filter (quiz_matches qry) (quizzes st)"
    from getAllQuizzes_page [OF a p l f found_def]
    obtain key :: "quiz \<Rightarrow> (int \<times> rat) \<times> string" and dir where
      s: "0 \<le> (page - 1) * limit'"
      and i: "fst (data r) =
            limit_docs limit' (skip_docs ((page - 1) * limit') (sort_docs key dir found))"
      and g: "snd (data r) = \<lparr>currentPage = page,
                    totalPages = Math_ceil_quotient (int (length found)) limit',
                    totalItems = int (length found),
                    itemsPerPage = limit',
                    hasNext = js_less page (Math_ceil_quotient (int (length found)) limit'),
                    hasPrev = (page > 1)\<rparr>"
      by blast
    have t': "total' = int (length found)" using t by (simp add: found_def)
    from page_facts [OF assms s i t'] show ?thesis
      unfolding found_def [symmetric] by (simp add: g t' [symmetric])
  qed
  have subj_ret: "\<exists>items' pg'. getSubjects regex subjects query = Inr (items', pg')"
    if "page = (case q_page query of None \<Rightarrow> 1 | Some p \<Rightarrow> p)"
      and "limit' = (case q_limit query of None \<Rightarrow> 10 | Some l \<Rightarrow> l)"
      and "1 \<le> page"
      and "truthy (q_search query) \<longrightarrow> regex (the (q_search query)) \<noteq> None"
    using getSubjects_returns [of query regex subjects] that assms by simp
  have quiz_ret: "\<exists>r'. getAllQuizzes regex st filters options = Inr r'"
    if "page = (case o_page options of None \<Rightarrow> 1 | Some p \<Rightarrow> p)"
      and "limit' = (case o_limit options of None \<Rightarrow> 10 | Some l \<Rightarrow> l)"
      and "1 \<le> page"
      and "truthy (o_search options) \<longrightarrow> regex (the (o_search options)) \<noteq> None"
    using getAllQuizzes_returns [of options regex st filters] that assms by simp
  show ?thesis
  proof (intro conjI impI)
    assume "page = (case q_page query of None \<Rightarrow> 1 | Some p \<Rightarrow> p)"
      and "limit' = (case q_limit query of None \<Rightarrow> 10 | Some l \<Rightarrow> l)"
      and "1 \<le> page"
      and "truthy (q_search query) \<longrightarrow> regex (the (q_search query)) \<noteq> None"
    then show "\<exists>items' pg'. getSubjects regex subjects query = Inr (items', pg')"
      by (rule subj_ret)
  next
    assume "page = (case o_page options of None \<Rightarrow> 1 | Some p \<Rightarrow> p)"
      and "limit' = (case o_limit options of None \<Rightarrow> 10 | Some l \<Rightarrow> l)"
      and "1 \<le> page"
      and "truthy (o_search options) \<longrightarrow> regex (the (o_search options)) \<noteq> None"
    then show "\<exists>r'. getAllQuizzes regex st filters options = Inr r'"
      by (rule quiz_ret)
  qed (use subj quiz in blast)+
qed

theorem list_pagination_witness:
  "(1::int) \<le> 2
   \<and> getSubjects RegExp_i sample_subjects (no_query\<lparr>q_page := Some 2, q_limit := Some 2\<rparr>)
       = Inr ([sample_subject],
              \<lparr>sp_currentPage = 2, sp_totalPages = Num 2, totalCount = 3,
               hasNextPage = False, hasPrevPage = True\<rparr>)
   \<and> int (length (filter (subject_matches
                            (build_filter (no_query\<lparr>q_page := Some 2, q_limit := Some 2\<rparr>)))
                    sample_subjects)) = 3
   \<and> Num 2 = Num \<lceil>(of_int 3 :: rat) / of_int 2\<rceil>
   \<and> int (length [sample_subject]) = min 2 (max 0 (3 - (2 - 1) * 2))
   \<and> getAllQuizzes RegExp_i sample_store no_filters (no_options\<lparr>o_limit := Some 2\<rparr>)
       = Inr \<lparr>statusCode = 200,
              data = ([sample_quiz],
                      \<lparr>currentPage = 1, totalPages = Num 1, totalItems = 1, itemsPerPage = 2,
                       hasNext = False, hasPrev = False\<rparr>),
              message = Some ''Quizzes retrieved successfully''\<rparr>
   \<and> int (length (filter (quiz_matches
                            (assign (build_query (no_options\<lparr>o_limit := Some 2\<rparr>)) no_filters))
                    (quizzes sample_store))) = 1
   \<and> Num 1 = Num \<lceil>(of_int 1 :: rat) / of_int 2\<rceil>"
proof -
  have h: "(1::int) \<le> 2" by simp
  have s: "getSubjects RegExp_i sample_subjects (no_query\<lparr>q_page := Some 2, q_limit := Some 2\<rparr>)
       = Inr ([sample_subject],
              \<lparr>sp_currentPage = 2, sp_totalPages = Num 2, totalCount = 3,
               hasNextPage = False, hasPrevPage = True\<rparr>)"
    by code_simp
  have sn: "int (length (filter (subject_matches
                            (build_filter (no_query\<lparr>q_page := Some 2, q_limit := Some 2\<rparr>)))
                    sample_subjects)) = 3"
    by code_simp
  have q: "getAllQuizzes RegExp_i sample_store no_filters (no_options\<lparr>o_limit := Some 2\<rparr>)
       = Inr \<lparr>statusCode = 200,
              data = ([sample_quiz],
                      \<lparr>currentPage = 1, totalPages = Num 1, totalItems = 1, itemsPerPage = 2,
                       hasNext = False, hasPrev = False\<rparr>),
              message = Some ''Quizzes retrieved successfully''\<rparr>"
    by code_simp
  have qn: "int (length (filter (quiz_matches
                            (assign (build_query (no_options\<lparr>o_limit := Some 2\<rparr>)) no_filters))
                    (quizzes sample_store))) = 1"
    by code_simp
  from list_pagination [OF h, where page = 2 and total' = 3
         and query = "no_query\<lparr>q_page := Some 2, q_limit := Some 2\<rparr>"
         and flt = "build_filter (no_query\<lparr>q_page := Some 2, q_limit := Some 2\<rparr>)"
         and regex = RegExp_i and subjects = sample_subjects and items = "[sample_subject]"
         and pg = "\<lparr>sp_currentPage = 2, sp_totalPages = Num 2, totalCount = 3,
               hasNextPage = False, hasPrevPage = True\<rparr>"] s sn
  have a: "Num 2 = Num \<lceil>(of_int 3 :: rat) / of_int 2\<rceil>
           \<and> int (length [sample_subject]) = min 2 (max 0 (3 - (2 - 1) * 2))"
    by (simp add: no_query_def truthy_def)
  from list_pagination [OF h, where page = 1 and total' = 1
         and options = "no_options\<lparr>o_limit := Some 2\<rparr>"
         and qry = "assign (build_query (no_options\<lparr>o_limit := Some 2\<rparr>)) no_filters"
         and regex = RegExp_i and st = sample_store and filters = no_filters
         and r = "\<lparr>statusCode = 200,
              data = ([sample_quiz],
                      \<lparr>currentPage = 1, totalPages = Num 1, totalItems = 1, itemsPerPage = 2,
                       hasNext = False, hasPrev = False\<rparr>),
              message = Some ''Quizzes retrieved successfully''\<rparr>"] q qn
  have b: "Num 1 = Num \<lceil>(of_int 1 :: rat) / of_int 2\<rceil>"
    by (simp add: no_options_def truthy_def)
  from h s sn q qn a b show ?thesis by simp
qed

section \<open>Soft-deleted subjects and the list\<close>

lemma getSubjects_items_active:
  assumes "getSubjects regex subjects query = Inr (items, pg)" and "s \<in> set items"
  shows "s \<in> set subjects \<and> status s = ''active''"
proof -
  from getSubjects_Inr [OF assms(1) refl refl]
  obtain flt and key :: "subject \<Rightarrow> string" and dir and n k where
    st: "sf_status flt = ''active''"
    and i: "items = limit_docs n (skip_docs k
                        (sort_docs key dir (filter (subject_matches flt) subjects)))"
    by blast
  from assms(2) have "s \<in> set (filter (subject_matches flt) subjects)"
    unfolding i using set_limit_docs set_skip_docs set_sort_docs by fast
  then show ?thesis
    using st by (simp add: subject_matches_def)
qed

lemma deleted_subject_inactive:
  "distinct (map subject_id xs) \<Longrightarrow>
   s \<in> set (update_first (\<lambda>s. subject_id s = sid)
               (\<lambda>s. s\<lparr>subject_isActive := False, status := ''inactive''\<rparr>) xs) \<Longrightarrow>
   subject_id s = sid \<Longrightarrow> status s = ''inactive'' \<and> subject_isActive s = False"
proof (induction xs)
  case Nil
  then show ?case by simp
next
  case (Cons a xs)
  show ?case
  proof (cases "subject_id a = sid")
    case True
    with Cons.prems have "sid \<notin> subject_id ` set xs" by auto
    with Cons.prems True show ?thesis by auto
  next
    case False
    with Cons show ?thesis by auto
  qed
qed

text \<open>
  C9: every subject \<open>getSubjects\<close> returns has the status \<open>active\<close>, whatever the query
  and the search term. In a collection with unique ids, after \<open>deleteSubject\<close> of an id
  the subject with that id has the status \<open>inactive\<close>, and no list result has a
  subject with that id.
\<close>

theorem getSubjects_lists_only_active:
  "(getSubjects regex subjects query = Inr (items, pg) \<longrightarrow>
      (\<forall>s \<in> set items. status s = ''active''))
   \<and> (distinct (map subject_id subjects) \<longrightarrow>
      deleteSubject subjects sid = (subjects', Inr ()) \<longrightarrow>
      (\<forall>s \<in> set subjects'. subject_id s = sid \<longrightarrow> status s = ''inactive'')
      \<and> (getSubjects regex subjects' query = Inr (items', pg') \<longrightarrow>
           sid \<notin> subject_id ` set items'))"
proof (intro conjI impI ballI)
  fix s
  assume "getSubjects regex subjects query = Inr (items, pg)" and "s \<in> set items"
  then show "status s = ''active''" by (simp add: getSubjects_items_active)
next
  fix s
  assume d: "distinct (map subject_id subjects)"
     and del: "deleteSubject subjects sid = (subjects', Inr ())"
     and s: "s \<in> set subjects'" "subject_id s = sid"
  from del have "subjects' = update_first (\<lambda>s. subject_id s = sid)
               (\<lambda>s. s\<lparr>subject_isActive := False, status := ''inactive''\<rparr>) subjects"
    by (auto simp: deleteSubject_def split: option.splits)
  with deleted_subject_inactive [OF d _ s(2)] s(1) show "status s = ''inactive''" by blast
next
  assume d: "distinct (map subject_id subjects)"
     and del: "deleteSubject subjects sid = (subjects', Inr ())"
     and g: "getSubjects regex subjects' query = Inr (items', pg')"
  from del have u: "subjects' = update_first (\<lambda>s. subject_id s = sid)
               (\<lambda>s. s\<lparr>subject_isActive := False, status := ''inactive''\<rparr>) subjects"
    by (auto simp: deleteSubject_def split: option.splits)
  show "sid \<notin> subject_id ` set items'"
  proof
    assume "sid \<in> subject_id ` set items'"
    then obtain s where s: "s \<in> set items'" "subject_id s = sid" by auto
    from getSubjects_items_active [OF g s(1)] have a: "s \<in> set subjects'" "status s = ''active''"
      by simp_all
    from deleted_subject_inactive [OF d _ s(2)] a(1) u have "status s = ''inactive''" by blast
    with a(2) show False by simp
  qed
qed

theorem getSubjects_lists_only_active_witness:
  "distinct (map subject_id sample_subjects)
   \<and> snd (deleteSubject sample_subjects ''s4'') = Inr ()
   \<and> map status (fst (deleteSubject sample_subjects ''s4''))
       = [''active'', ''active'', ''inactive'', ''inactive'']
   \<and> getSubjects RegExp_i (fst (deleteSubject sample_subjects ''s4''))
        (no_query\<lparr>q_isActive := Some ''false''\<rparr>)
       = Inr ([], \<lparr>sp_currentPage = 1, sp_totalPages = Num 0, totalCount = 0,
                  hasNextPage = False, hasPrevPage = False\<rparr>)
   \<and> getSubjects RegExp_i (fst (deleteSubject sample_subjects ''s4'')) no_query
       = Inr ([sample_subject\<lparr>subject_id := ''s2'', name := ''Chimie'', code := ''CHI01''\<rparr>,
               sample_subject],
              \<lparr>sp_currentPage = 1, sp_totalPages = Num 1, totalCount = 2,
               hasNextPage = False, hasPrevPage = False\<rparr>)
   \<and> ''s4'' \<notin> subject_id `
        set [sample_subject\<lparr>subject_id := ''s2'', name := ''Chimie'', code := ''CHI01''\<rparr>,
             sample_subject]
   \<and> list_all (\<lambda>s. status s = ''active'')
        [sample_subject\<lparr>subject_id := ''s2'', name := ''Chimie'', code := ''CHI01''\<rparr>,
         sample_subject]"
proof -
  have d: "distinct (map subject_id sample_subjects)"
    by (simp add: sample_subjects_def sample_subject_def)
  have del: "deleteSubject sample_subjects ''s4'' = (fst (deleteSubject sample_subjects ''s4''), Inr ())"
    by code_simp
  have st: "map status (fst (deleteSubject sample_subjects ''s4''))
       = [''active'', ''active'', ''inactive'', ''inactive'']"
    by code_simp
  have g0: "getSubjects RegExp_i (fst (deleteSubject sample_subjects ''s4''))
        (no_query\<lparr>q_isActive := Some ''false''\<rparr>)
       = Inr ([], \<lparr>sp_currentPage = 1, sp_totalPages = Num 0, totalCount = 0,
                  hasNextPage = False, hasPrevPage = False\<rparr>)"
    by code_simp
  have g: "getSubjects RegExp_i (fst (deleteSubject sample_subjects ''s4'')) no_query
       = Inr ([sample_subject\<lparr>subject_id := ''s2'', name := ''Chimie'', code := ''CHI01''\<rparr>,
               sample_subject],
              \<lparr>sp_currentPage = 1, sp_totalPages = Num 1, totalCount = 2,
               hasNextPage = False, hasPrevPage = False\<rparr>)"
    by code_simp
  from getSubjects_lists_only_active
         [where regex = RegExp_i and subjects = "fst (deleteSubject sample_subjects ''s4'')"
            and query = no_query and pg = "\<lparr>sp_currentPage = 1, sp_totalPages = Num 1,
               totalCount = 2, hasNextPage = False, hasPrevPage = False\<rparr>"
            and items = "[sample_subject\<lparr>subject_id := ''s2'', name := ''Chimie'',
                                          code := ''CHI01''\<rparr>, sample_subject]"] g
  have a: "list_all (\<lambda>s. status s = ''active'')
        [sample_subject\<lparr>subject_id := ''s2'', name := ''Chimie'', code := ''CHI01''\<rparr>,
         sample_subject]"
    by (simp add: list_all_iff)
  from getSubjects_lists_only_active
         [where regex = RegExp_i and subjects = sample_subjects and sid = "''s4''"
            and subjects' = "fst (deleteSubject sample_subjects ''s4'')"
            and query = no_query and pg' = "\<lparr>sp_currentPage = 1, sp_totalPages = Num 1,
               totalCount = 2, hasNextPage = False, hasPrevPage = False\<rparr>"
            and items' = "[sample_subject\<lparr>subject_id := ''s2'', name := ''Chimie'',
                                           code := ''CHI01''\<rparr>, sample_subject]"] d del g
  have b: "''s4'' \<notin> subject_id `
        set [sample_subject\<lparr>subject_id := ''s2'', name := ''Chimie'', code := ''CHI01''\<rparr>,
             sample_subject]"
    by blast
  have sn: "snd (deleteSubject sample_subjects ''s4'') = Inr ()"
    by code_simp
  from d sn st g0 g a b show ?thesis by simp
qed

section \<open>Subject creation and duplicate names\<close>

lemma createSubject_error_keeps_store:
  "createSubject regex new_id subjects subjectData = (subjects', Inl e) \<Longrightarrow> subjects' = subjects"
  by (auto simp: createSubject_def split: option.splits)

lemma createSubject_code_conflict:
  assumes "s \<in> set subjects" and "code s = toUpperCase (d_code subjectData)"
  shows "createSubject regex new_id subjects subjectData =
           (subjects, Inl (ConflictError ''Une matiere avec ce code existe deja''))"
proof -
  from assms have "find (\<lambda>s. code s = toUpperCase (d_code subjectData)) subjects \<noteq> None"
    by (auto simp: find_None_iff)
  then show ?thesis
    by (auto simp: createSubject_def)
qed

lemma createSubject_name_conflict:
  assumes "regex (''^'' @ d_name subjectData @ ''$'') = Some m"
      and "s \<in> set subjects" and "m (name s)"
  shows "\<exists>msg. createSubject regex new_id subjects subjectData =
           (subjects, Inl (ConflictError msg))"
proof -
  from assms(2,3) have "find (\<lambda>s. m (name s)) subjects \<noteq> None"
    by (auto simp: find_None_iff)
  with assms(1) show ?thesis
    by (auto simp: createSubject_def split: option.splits)
qed

lemma createSubject_plain_name_conflict:
  "createSubject RegExp_i ''s9'' sample_subjects (sample_subject_data\<lparr>d_name := ''CHIMIE''\<rparr>) =
     (sample_subjects, Inl (ConflictError ''Une matiere avec ce nom existe deja''))"
  by code_simp

text \<open>
  C3 holds for a colliding code, and for a colliding name whenever the pattern built
  from the new name matches the stored name (the two lemmas above). It fails for a name
  with a character that the pattern language reads as an operator: the collection holds
  the active subject named \<open>Physique (Terminale)\<close>, and a subject of the same name and
  another code is created. In the pattern \<open>^Physique (Terminale)$\<close> the parentheses
  form a group, so the pattern matches \<open>Physique Terminale\<close> and not the stored name;
  no conflict is found and a second subject of that name is stored.
\<close>

theorem createSubject_misses_name_with_parentheses:
  "name sample_subject = d_name sample_subject_data
   \<and> status sample_subject = ''active''
   \<and> map_option (\<lambda>m. (m ''Physique (Terminale)'', m ''physique terminale''))
        (RegExp_i (''^'' @ d_name sample_subject_data @ ''$'')) = Some (False, True)
   \<and> createSubject RegExp_i ''s2'' [sample_subject] sample_subject_data =
        ([sample_subject, new_Subject ''s2'' sample_subject_data],
         Inr (new_Subject ''s2'' sample_subject_data))"
  by code_simp

end

